theory Spec2Isabelle
  imports Main "HOL-Library.AList"
begin

section \<open>Data model (packages/core/src/types.ts)\<close>

text \<open>
  The TypeScript interfaces become records, the string-literal unions become datatypes.
  Record fields carry a short prefix of their interface, because several interfaces share
  field names (\<open>platform\<close>, \<open>arch\<close>, \<open>version\<close>, \<open>id\<close>, \<open>size\<close>).

  A JavaScript object used as a dictionary (\<open>Record<string, string>\<close>) is an association
  list in \<open>Object.keys\<close> order; \<open>obj[k]\<close> is \<open>map_of obj k\<close>, and \<open>None\<close> stands for
  \<open>undefined\<close>. Two features of JavaScript objects are outside the model: a lookup finds
  own keys only, while \<open>obj[k]\<close> also finds the members inherited from
  \<open>Object.prototype\<close> (\<open>constructor\<close>, \<open>toString\<close>, ...); and the list keeps the order
  in which keys were added, while \<open>Object.keys\<close> lists integer-like keys first, in
  ascending order. The theorems below that speak of one key do so for keys that are not
  names of inherited members, and no theorem depends on the order of integer-like keys.
\<close>

datatype EnvironmentType = Local | Staging | Production | Ci | DockerEnv

datatype DriftCategory = Nodejs | Dependency | Envvar | Docker | Binary

datatype DriftSeverity = NoSeverity | Low | Medium | High | Critical

text \<open>The values a \<open>Drift\<close> stores in its \<open>local\<close> and \<open>remote\<close> fields (typed \<open>unknown\<close>):
  the comparator only ever stores a string, \<open>undefined\<close> or \<open>null\<close>.\<close>

datatype jsval = Undefined | Null | Str string

text \<open>A \<open>Date\<close> object: a time value in milliseconds, or the invalid date.\<close>

datatype Date = ValidDate int | InvalidDate

text \<open>A parsed JSON document (the \<open>unknown[]\<close> of \<open>DockerContainer.ports\<close> holds such
  values). Numbers are the integers the capture functions produce: sizes and counts.\<close>

datatype json =
    JNull
  | JBool bool
  | JNum int
  | JStr string
  | JArr "json list"
  | JObj "(string \<times> json) list"

type_synonym 'v obj = "(string \<times> 'v) list"

record NodeVersionInfo =
  nv_version :: string
  nv_npmVersion :: string
  nv_platform :: string
  nv_arch :: string
  nv_v8Version :: string
  nv_modules :: string
  nv_openssl :: "string option"

record NativeModuleInfo =
  nm_name :: string
  nm_path :: string
  nm_platform :: string
  nm_arch :: string
  nm_nodeAbi :: string
  nm_size :: int
  nm_modified :: Date

record DependencySnapshot =
  dep_production :: "string obj"
  dep_development :: "string obj"
  dep_lockfileHash :: string
  dep_nativeModules :: "NativeModuleInfo list"

record EnvironmentVariables =
  ev_variables :: "string obj"
  ev_redacted :: "string list"

record DockerImage =
  img_id :: string
  img_tags :: "string list"
  img_size :: int
  img_created :: "Date option"

record DockerContainer =
  ctr_id :: string
  ctr_name :: string
  ctr_image :: string
  ctr_state :: string
  ctr_ports :: "json list option"

record DockerComposeConfig =
  cc_file :: string
  cc_version :: "string option"
  cc_services :: "string list"
  cc_networks :: "string list"
  cc_volumes :: "string list"

record DockerSnapshot =
  dk_version :: "string option"
  dk_platform :: "string option"
  dk_arch :: "string option"
  dk_images :: "DockerImage list"
  dk_containers :: "DockerContainer list"
  dk_composeConfigs :: "DockerComposeConfig list"

record SystemInfo =
  sys_platform :: string
  sys_arch :: string
  sys_cpus :: int
  sys_totalMemory :: int
  sys_freeMemory :: int
  sys_hostname :: string

record EnvironmentSnapshot =
  timestamp :: Date
  environment :: EnvironmentType
  nodeVersion :: NodeVersionInfo
  dependencies :: DependencySnapshot
  envVars :: EnvironmentVariables
  docker :: DockerSnapshot
  system :: SystemInfo
  hash :: string

record Drift =
  d_category :: DriftCategory
  d_severity :: DriftSeverity
  d_field :: string
  d_local :: jsval
  d_remote :: jsval
  d_impact :: string
  d_recommendation :: string

record ByCategory =
  by_nodejs :: nat
  by_dependency :: nat
  by_envvar :: nat
  by_docker :: nat
  by_binary :: nat

record DriftSummary =
  sum_total :: nat
  sum_critical :: nat
  sum_high :: nat
  sum_medium :: nat
  sum_low :: nat
  sum_byCategory :: ByCategory

record DriftReport =
  hasDrift :: bool
  severity :: DriftSeverity
  drifts :: "Drift list"
  summary :: DriftSummary
  localSnapshot :: EnvironmentSnapshot
  remoteSnapshot :: EnvironmentSnapshot

section \<open>JavaScript primitives used by the comparator\<close>

text \<open>Truthiness of a value that is a string or \<open>undefined\<close>: only a non-empty string
  is truthy.\<close>

definition truthy :: "string option \<Rightarrow> bool" where
  "truthy v = (case v of None \<Rightarrow> False | Some s \<Rightarrow> s \<noteq> [])"

text \<open>A string, \<open>undefined\<close> or \<open>null\<close> inside a template literal.\<close>

fun template :: "jsval \<Rightarrow> string" where
  "template Undefined = ''undefined''"
| "template Null = ''null''"
| "template (Str s) = s"

definition ofUndefinable :: "string option \<Rightarrow> jsval" where
  "ofUndefinable v = (case v of None \<Rightarrow> Undefined | Some s \<Rightarrow> Str s)"

definition ofNullable :: "string option \<Rightarrow> jsval" where
  "ofNullable v = (case v of None \<Rightarrow> Null | Some s \<Rightarrow> Str s)"

text \<open>\<open>new Set(xs)\<close> iterated: the elements in first-insertion order, without repeats.\<close>

definition newSet :: "'a list \<Rightarrow> 'a list" where
  "newSet xs = foldl (\<lambda>acc x. if x \<in> set acc then acc else acc @ [x]) [] xs"

text \<open>Object spread \<open>{...a, ...b}\<close>: a key of \<open>b\<close> already in \<open>a\<close> keeps its place and
  takes the value of \<open>b\<close>; a new key is appended.\<close>

definition spread :: "'v obj \<Rightarrow> 'v obj \<Rightarrow> 'v obj" where
  "spread a b = foldl (\<lambda>acc (k, v). AList.update k v acc) a b"

definition keys :: "'v obj \<Rightarrow> string list" where
  "keys ob = map fst ob"

text \<open>\<open>String(n)\<close> for a non-negative integer.\<close>

fun showNat :: "nat \<Rightarrow> string" where
  "showNat n =
     (if n < 10 then [''0123456789'' ! n]
      else showNat (n div 10) @ [''0123456789'' ! (n mod 10)])"

declare showNat.simps [simp del]

text \<open>The right arrow U+2192 of the impact texts, as its UTF-8 bytes.\<close>

definition arrow :: string where
  "arrow = [CHR 0xE2, CHR 0x86, CHR 0x92]"

section \<open>Severity classifier (packages/core/src/compare.ts)\<close>

text \<open>
  \<open>semver.parse\<close> belongs to the external \<open>semver\<close> package, so the parser is a parameter
  of every function that calls it: it returns the version's components, or \<open>None\<close> where
  the library returns \<open>null\<close>. The classifier reads \<open>major\<close> and \<open>minor\<close> only.
  An argument that is \<open>undefined\<close> at run time is no string, and the library (semver 7.5)
  returns \<open>null\<close> for it.
\<close>

record SemVer =
  major :: nat
  minor :: nat
  patch :: nat

type_synonym parser = "string \<Rightarrow> SemVer option"

definition semverParse :: "parser \<Rightarrow> string option \<Rightarrow> SemVer option" where
  "semverParse parse v = (case v of None \<Rightarrow> None | Some s \<Rightarrow> parse s)"

definition assessNodeVersionDrift :: "parser \<Rightarrow> string option \<Rightarrow> string option \<Rightarrow> DriftSeverity" where
  "assessNodeVersionDrift parse l r =
     (case (semverParse parse l, semverParse parse r) of
        (Some localVer, Some remoteVer) \<Rightarrow>
          if major localVer \<noteq> major remoteVer then High
          else if minor localVer \<noteq> minor remoteVer then Medium
          else Low
      | _ \<Rightarrow> Medium)"

definition assessVersionDrift :: "parser \<Rightarrow> string option \<Rightarrow> string option \<Rightarrow> DriftSeverity" where
  "assessVersionDrift parse l r =
     (case (semverParse parse l, semverParse parse r) of
        (Some localVer, Some remoteVer) \<Rightarrow>
          if major localVer \<noteq> major remoteVer then High
          else if minor localVer \<noteq> minor remoteVer then Medium
          else Low
      | _ \<Rightarrow> Medium)"

definition describeVersionImpact :: "parser \<Rightarrow> string \<Rightarrow> string option \<Rightarrow> string option \<Rightarrow> string" where
  "describeVersionImpact parse pkg l r =
     (case (semverParse parse l, semverParse parse r) of
        (Some localVer, Some remoteVer) \<Rightarrow>
          (let change = ''('' @ template (ofUndefinable l) @ '' '' @ arrow @ '' ''
                        @ template (ofUndefinable r) @ '')''
           in if major localVer \<noteq> major remoteVer
              then ''Major version change '' @ change @ '' - breaking changes likely''
              else if minor localVer \<noteq> minor remoteVer
              then ''Minor version change '' @ change @ '' - new features or deprecations''
              else ''Patch version change '' @ change @ '' - bug fixes'')
      | _ \<Rightarrow> ''Version format differs'')"

section \<open>Sub-comparisons (packages/core/src/compare.ts and validators)\<close>

definition compareNodeVersions :: "parser \<Rightarrow> EnvironmentSnapshot \<Rightarrow> EnvironmentSnapshot \<Rightarrow> Drift list" where
  "compareNodeVersions parse l r =
     (if nv_version (nodeVersion l) \<noteq> nv_version (nodeVersion r)
      then [\<lparr> d_category = Nodejs,
              d_severity = assessNodeVersionDrift parse
                 (Some (nv_version (nodeVersion l))) (Some (nv_version (nodeVersion r))),
              d_field = ''nodeVersion'',
              d_local = Str (nv_version (nodeVersion l)),
              d_remote = Str (nv_version (nodeVersion r)),
              d_impact = ''Runtime behavior differences, potential API incompatibilities'',
              d_recommendation = ''Update local Node.js to '' @ nv_version (nodeVersion r) \<rparr>]
      else [])
     @
     (if nv_npmVersion (nodeVersion l) \<noteq> nv_npmVersion (nodeVersion r)
      then [\<lparr> d_category = Nodejs,
              d_severity = Low,
              d_field = ''npmVersion'',
              d_local = Str (nv_npmVersion (nodeVersion l)),
              d_remote = Str (nv_npmVersion (nodeVersion r)),
              d_impact = ''Package installation behavior may differ'',
              d_recommendation = ''Update npm to '' @ nv_npmVersion (nodeVersion r) \<rparr>]
      else [])
     @
     (if nv_platform (nodeVersion l) \<noteq> nv_platform (nodeVersion r)
      then [\<lparr> d_category = Nodejs,
              d_severity = Critical,
              d_field = ''platform'',
              d_local = Str (nv_platform (nodeVersion l)),
              d_remote = Str (nv_platform (nodeVersion r)),
              d_impact = ''Platform mismatch - native modules will fail'',
              d_recommendation = ''Ensure platform compatibility or use Docker for consistency'' \<rparr>]
      else [])
     @
     (if nv_arch (nodeVersion l) \<noteq> nv_arch (nodeVersion r)
      then [\<lparr> d_category = Nodejs,
              d_severity = Critical,
              d_field = ''arch'',
              d_local = Str (nv_arch (nodeVersion l)),
              d_remote = Str (nv_arch (nodeVersion r)),
              d_impact = ''Architecture mismatch - binaries incompatible'',
              d_recommendation = ''Ensure architecture compatibility'' \<rparr>]
      else [])"

text \<open>The body of the loop over \<open>allPackageNames\<close> in \<open>compareDependencies\<close>: the drifts
  pushed for one package name. The three tests are truthiness tests, as in the source.\<close>

definition packageDrift :: "parser \<Rightarrow> string obj \<Rightarrow> string obj \<Rightarrow> string \<Rightarrow> Drift list" where
  "packageDrift parse allLocalPackages allRemotePackages pkg =
     (let localVer = map_of allLocalPackages pkg;
          remoteVer = map_of allRemotePackages pkg
      in if \<not> truthy localVer \<and> truthy remoteVer
         then [\<lparr> d_category = Dependency,
                 d_severity = High,
                 d_field = ''dependency.'' @ pkg,
                 d_local = Undefined,
                 d_remote = ofUndefinable remoteVer,
                 d_impact = ''Missing dependency - may cause runtime errors'',
                 d_recommendation =
                   ''Install '' @ pkg @ ''@'' @ template (ofUndefinable remoteVer) \<rparr>]
         else if truthy localVer \<and> \<not> truthy remoteVer
         then [\<lparr> d_category = Dependency,
                 d_severity = Medium,
                 d_field = ''dependency.'' @ pkg,
                 d_local = ofUndefinable localVer,
                 d_remote = Undefined,
                 d_impact = ''Extra dependency not in remote'',
                 d_recommendation = ''Remove '' @ pkg @ '' or add to remote environment'' \<rparr>]
         else if localVer \<noteq> remoteVer
         then [\<lparr> d_category = Dependency,
                 d_severity = assessVersionDrift parse localVer remoteVer,
                 d_field = ''dependency.'' @ pkg,
                 d_local = ofUndefinable localVer,
                 d_remote = ofUndefinable remoteVer,
                 d_impact = describeVersionImpact parse pkg localVer remoteVer,
                 d_recommendation =
                   ''Update '' @ pkg @ '' to '' @ template (ofUndefinable remoteVer) \<rparr>]
         else [])"

definition allPackages :: "EnvironmentSnapshot \<Rightarrow> string obj" where
  "allPackages s = spread (dep_production (dependencies s)) (dep_development (dependencies s))"

definition compareDependencies :: "parser \<Rightarrow> EnvironmentSnapshot \<Rightarrow> EnvironmentSnapshot \<Rightarrow> Drift list" where
  "compareDependencies parse l r =
     (let allLocalPackages = allPackages l;
          allRemotePackages = allPackages r;
          allPackageNames = newSet (keys allLocalPackages @ keys allRemotePackages)
      in concat (map (packageDrift parse allLocalPackages allRemotePackages) allPackageNames)
         @
         (if dep_lockfileHash (dependencies l) \<noteq> dep_lockfileHash (dependencies r)
          then [\<lparr> d_category = Dependency,
                  d_severity = High,
                  d_field = ''lockfile'',
                  d_local = Str (take 8 (dep_lockfileHash (dependencies l))),
                  d_remote = Str (take 8 (dep_lockfileHash (dependencies r))),
                  d_impact = ''Lockfile mismatch - exact dependency versions differ'',
                  d_recommendation = ''Sync lockfile to ensure identical dependency tree'' \<rparr>]
          else []))"

subsection \<open>Environment variables (validators/env-vars.ts)\<close>

record EnvVarComparison =
  evc_missing :: "string list"
  evc_extra :: "string list"
  evc_different :: "string list"

text \<open>The third loop of \<open>compareEnvVars\<close> keeps a key of both sides whose values differ
  and are both different from the redaction sentinel.\<close>

definition differs :: "EnvironmentVariables \<Rightarrow> EnvironmentVariables \<Rightarrow> string \<Rightarrow> bool" where
  "differs l r key =
     (let localVal = map_of (ev_variables l) key;
          remoteVal = map_of (ev_variables r) key
      in localVal \<noteq> remoteVal \<and> localVal \<noteq> Some ''[REDACTED]''
         \<and> remoteVal \<noteq> Some ''[REDACTED]'')"

definition compareEnvVars :: "EnvironmentVariables \<Rightarrow> EnvironmentVariables \<Rightarrow> EnvVarComparison" where
  "compareEnvVars l r =
     (let localKeys = newSet (keys (ev_variables l));
          remoteKeys = newSet (keys (ev_variables r))
      in \<lparr> evc_missing = filter (\<lambda>key. key \<notin> set localKeys) remoteKeys,
           evc_extra = filter (\<lambda>key. key \<notin> set remoteKeys) localKeys,
           evc_different =
             filter (\<lambda>key. key \<in> set remoteKeys \<and> differs l r key) localKeys \<rparr>)"

definition missingDrift :: "string \<Rightarrow> Drift" where
  "missingDrift key =
     \<lparr> d_category = Envvar,
       d_severity = High,
       d_field = ''env.'' @ key,
       d_local = Undefined,
       d_remote = Str ''[SET]'',
       d_impact = ''Missing environment variable - may cause runtime errors'',
       d_recommendation = ''Set '' @ key @ '' in local environment'' \<rparr>"

definition extraDrift :: "string \<Rightarrow> Drift" where
  "extraDrift key =
     \<lparr> d_category = Envvar,
       d_severity = Low,
       d_field = ''env.'' @ key,
       d_local = Str ''[SET]'',
       d_remote = Undefined,
       d_impact = ''Extra environment variable not in remote'',
       d_recommendation = ''Remove '' @ key @ '' or add to remote environment'' \<rparr>"

definition differentDrift :: "EnvironmentSnapshot \<Rightarrow> EnvironmentSnapshot \<Rightarrow> string \<Rightarrow> Drift" where
  "differentDrift l r key =
     \<lparr> d_category = Envvar,
       d_severity = Medium,
       d_field = ''env.'' @ key,
       d_local = ofUndefinable (map_of (ev_variables (envVars l)) key),
       d_remote = ofUndefinable (map_of (ev_variables (envVars r)) key),
       d_impact = ''Environment variable value differs'',
       d_recommendation = ''Update '' @ key @ '' to match remote value'' \<rparr>"

definition compareEnvironmentVars :: "EnvironmentSnapshot \<Rightarrow> EnvironmentSnapshot \<Rightarrow> Drift list" where
  "compareEnvironmentVars l r =
     (let comparison = compareEnvVars (envVars l) (envVars r)
      in map missingDrift (evc_missing comparison)
         @ map extraDrift (evc_extra comparison)
         @ map (differentDrift l r) (evc_different comparison))"

subsection \<open>Container state (validators/docker.ts)\<close>

record DockerComparison =
  dc_versionMismatch :: bool
  dc_missingImages :: "string list"
  dc_extraImages :: "string list"
  dc_configDifferences :: "string list"

definition compareDockerConfigs :: "DockerSnapshot \<Rightarrow> DockerSnapshot \<Rightarrow> DockerComparison" where
  "compareDockerConfigs l r =
     (let localImageTags = newSet (concat (map img_tags (dk_images l)));
          remoteImageTags = newSet (concat (map img_tags (dk_images r)))
      in \<lparr> dc_versionMismatch = (dk_version l \<noteq> dk_version r),
           dc_missingImages = filter (\<lambda>tag. tag \<notin> set localImageTags) remoteImageTags,
           dc_extraImages = filter (\<lambda>tag. tag \<notin> set remoteImageTags) localImageTags,
           dc_configDifferences =
             (if length (dk_composeConfigs l) \<noteq> length (dk_composeConfigs r)
              then [''Compose file count mismatch: '' @ showNat (length (dk_composeConfigs l))
                    @ '' vs '' @ showNat (length (dk_composeConfigs r))]
              else []) \<rparr>)"

definition missingImageDrift :: "string \<Rightarrow> Drift" where
  "missingImageDrift imageTag =
     \<lparr> d_category = Docker,
       d_severity = High,
       d_field = ''docker.image.'' @ imageTag,
       d_local = Undefined,
       d_remote = Str imageTag,
       d_impact = ''Missing Docker image'',
       d_recommendation = ''Pull Docker image: docker pull '' @ imageTag \<rparr>"

definition extraImageDrift :: "string \<Rightarrow> Drift" where
  "extraImageDrift imageTag =
     \<lparr> d_category = Docker,
       d_severity = Low,
       d_field = ''docker.image.'' @ imageTag,
       d_local = Str imageTag,
       d_remote = Undefined,
       d_impact = ''Extra Docker image not in remote'',
       d_recommendation = ''Remove image or add to remote: '' @ imageTag \<rparr>"

text \<open>\<open>compareDocker\<close> reads \<open>versionMismatch\<close>, \<open>missingImages\<close> and \<open>extraImages\<close> of
  the comparison; it has no loop over \<open>configDifferences\<close>.\<close>

definition compareDocker :: "EnvironmentSnapshot \<Rightarrow> EnvironmentSnapshot \<Rightarrow> Drift list" where
  "compareDocker l r =
     (let comparison = compareDockerConfigs (docker l) (docker r)
      in (if dc_versionMismatch comparison
          then [\<lparr> d_category = Docker,
                  d_severity = Medium,
                  d_field = ''docker.version'',
                  d_local = ofNullable (dk_version (docker l)),
                  d_remote = ofNullable (dk_version (docker r)),
                  d_impact = ''Docker version mismatch - behavior may differ'',
                  d_recommendation =
                    ''Update Docker to '' @ template (ofNullable (dk_version (docker r))) \<rparr>]
          else [])
         @ map missingImageDrift (dc_missingImages comparison)
         @ map extraImageDrift (dc_extraImages comparison))"

subsection \<open>Native modules (validators/binaries.ts)\<close>

text \<open>The body of the first loop of \<open>compareNativeModules\<close>, for one local module.\<close>

definition localModuleDrift :: "NativeModuleInfo list \<Rightarrow> NativeModuleInfo \<Rightarrow> Drift list" where
  "localModuleDrift remote localMod =
     (case find (\<lambda>m. nm_name m = nm_name localMod) remote of
        None \<Rightarrow>
          [\<lparr> d_category = Binary,
             d_severity = Medium,
             d_field = ''native.'' @ nm_name localMod,
             d_local = Str (nm_platform localMod),
             d_remote = Undefined,
             d_impact = ''Native module exists locally but not in remote environment'',
             d_recommendation = ''Ensure '' @ nm_name localMod
                @ '' is installed in remote or remove from local'' \<rparr>]
      | Some remoteMod \<Rightarrow>
          (if nm_platform localMod \<noteq> nm_platform remoteMod
           then [\<lparr> d_category = Binary,
                   d_severity = Critical,
                   d_field = ''native.'' @ nm_name localMod @ ''.platform'',
                   d_local = Str (nm_platform localMod),
                   d_remote = Str (nm_platform remoteMod),
                   d_impact = ''Native module compiled for '' @ nm_platform localMod
                      @ '' but remote uses '' @ nm_platform remoteMod @ '' - will crash'',
                   d_recommendation = ''Rebuild '' @ nm_name localMod @ '' for ''
                      @ nm_platform remoteMod @ '' platform'' \<rparr>]
           else [])
          @
          (if nm_arch localMod \<noteq> nm_arch remoteMod
           then [\<lparr> d_category = Binary,
                   d_severity = Critical,
                   d_field = ''native.'' @ nm_name localMod @ ''.arch'',
                   d_local = Str (nm_arch localMod),
                   d_remote = Str (nm_arch remoteMod),
                   d_impact = ''Architecture mismatch: '' @ nm_arch localMod @ '' vs ''
                      @ nm_arch remoteMod @ '' - module will fail to load'',
                   d_recommendation = ''Rebuild '' @ nm_name localMod @ '' for ''
                      @ nm_arch remoteMod @ '' architecture'' \<rparr>]
           else [])
          @
          (if nm_nodeAbi localMod \<noteq> nm_nodeAbi remoteMod
           then [\<lparr> d_category = Binary,
                   d_severity = Critical,
                   d_field = ''native.'' @ nm_name localMod @ ''.abi'',
                   d_local = Str (nm_nodeAbi localMod),
                   d_remote = Str (nm_nodeAbi remoteMod),
                   d_impact = ''Incompatible Node.js ABI version ('' @ nm_nodeAbi localMod
                      @ '' vs '' @ nm_nodeAbi remoteMod @ '') - module will fail to load'',
                   d_recommendation = ''Rebuild '' @ nm_name localMod
                      @ '' with Node.js version matching ABI '' @ nm_nodeAbi remoteMod \<rparr>]
           else []))"

text \<open>The body of the second loop, for one remote module.\<close>

definition remoteModuleDrift :: "NativeModuleInfo list \<Rightarrow> NativeModuleInfo \<Rightarrow> Drift list" where
  "remoteModuleDrift localMods remoteMod =
     (case find (\<lambda>m. nm_name m = nm_name remoteMod) localMods of
        None \<Rightarrow>
          [\<lparr> d_category = Binary,
             d_severity = High,
             d_field = ''native.'' @ nm_name remoteMod,
             d_local = Undefined,
             d_remote = Str (nm_platform remoteMod),
             d_impact = ''Native module required by remote but missing locally - may cause runtime errors'',
             d_recommendation = ''Install '' @ nm_name remoteMod @ '' locally'' \<rparr>]
      | Some localMod \<Rightarrow> [])"

definition compareNativeModules :: "NativeModuleInfo list \<Rightarrow> NativeModuleInfo list \<Rightarrow> Drift list" where
  "compareNativeModules l r =
     concat (map (localModuleDrift r) l) @ concat (map (remoteModuleDrift l) r)"

subsection \<open>Aggregation and the comparator (compare.ts)\<close>

definition countSeverity :: "DriftSeverity \<Rightarrow> Drift list \<Rightarrow> nat" where
  "countSeverity s ds = length (filter (\<lambda>d. d_severity d = s) ds)"

definition countCategory :: "DriftCategory \<Rightarrow> Drift list \<Rightarrow> nat" where
  "countCategory c ds = length (filter (\<lambda>d. d_category d = c) ds)"

definition generateSummary :: "Drift list \<Rightarrow> DriftSummary" where
  "generateSummary ds =
     \<lparr> sum_total = length ds,
       sum_critical = countSeverity Critical ds,
       sum_high = countSeverity High ds,
       sum_medium = countSeverity Medium ds,
       sum_low = countSeverity Low ds,
       sum_byCategory =
         \<lparr> by_nodejs = countCategory Nodejs ds,
           by_dependency = countCategory Dependency ds,
           by_envvar = countCategory Envvar ds,
           by_docker = countCategory Docker ds,
           by_binary = countCategory Binary ds \<rparr> \<rparr>"

definition assessOverallSeverity :: "Drift list \<Rightarrow> DriftSeverity" where
  "assessOverallSeverity ds =
     (if length ds = 0 then NoSeverity
      else let severities = map d_severity ds
           in if Critical \<in> set severities then Critical
              else if High \<in> set severities then High
              else if Medium \<in> set severities then Medium
              else if Low \<in> set severities then Low
              else NoSeverity)"

definition compareSnapshots :: "parser \<Rightarrow> EnvironmentSnapshot \<Rightarrow> EnvironmentSnapshot \<Rightarrow> DriftReport" where
  "compareSnapshots parse l r =
     (let ds = compareNodeVersions parse l r
               @ compareDependencies parse l r
               @ compareEnvironmentVars l r
               @ compareDocker l r
               @ compareNativeModules (dep_nativeModules (dependencies l))
                                      (dep_nativeModules (dependencies r))
      in \<lparr> hasDrift = (length ds > 0),
           severity = assessOverallSeverity ds,
           drifts = ds,
           summary = generateSummary ds,
           localSnapshot = l,
           remoteSnapshot = r \<rparr>)"

section \<open>Synchronization orchestrator (packages/sync/src/env-sync.ts)\<close>

record SyncAction =
  sa_drift :: Drift
  sa_success :: bool
  sa_action :: "string option"
  sa_error :: "string option"

record SyncOptions =
  opt_autoFix :: "bool option"
  opt_dryRun :: "bool option"
  opt_categories :: "DriftCategory list option"
  opt_maxSeverity :: "DriftSeverity option"

record SyncSummary =
  ss_total :: nat
  ss_succeeded :: nat
  ss_failed :: nat

record SyncResult =
  sr_success :: bool
  sr_actions :: "SyncAction list"
  sr_summary :: SyncSummary

subsection \<open>Strings and truthiness\<close>

fun truthyVal :: "jsval \<Rightarrow> bool" where
  "truthyVal Undefined = False"
| "truthyVal Null = False"
| "truthyVal (Str s) = (s \<noteq> [])"

definition startsWith :: "string \<Rightarrow> string \<Rightarrow> bool" where
  "startsWith s p = (take (length p) s = p)"

text \<open>\<open>s.replace(pat, rep)\<close> with a string pattern: the first occurrence only.\<close>

fun replaceFirst :: "string \<Rightarrow> string \<Rightarrow> string \<Rightarrow> string" where
  "replaceFirst pat rep [] = (if pat = [] then rep else [])"
| "replaceFirst pat rep (c # cs) =
     (if take (length pat) (c # cs) = pat then rep @ drop (length pat) (c # cs)
      else c # replaceFirst pat rep cs)"

text \<open>\<open>s.split(sep)\<close> for a one-character separator.\<close>

fun splitOn :: "char \<Rightarrow> string \<Rightarrow> string list" where
  "splitOn sep [] = [[]]"
| "splitOn sep (c # cs) =
     (if c = sep then [] # splitOn sep cs
      else (case splitOn sep cs of p # ps \<Rightarrow> (c # p) # ps | [] \<Rightarrow> [[c]]))"

subsection \<open>The external commands\<close>

text \<open>
  \<open>execAsync\<close> hands a command line to a shell: the one effect of the orchestrator. The
  model threads the log of the calls made so far, each with its outcome: \<open>None\<close> when the
  promise resolves, \<open>Some message\<close> when it rejects with that error message. The world is
  a parameter: a function from the earlier calls and the command to the outcome.
\<close>

type_synonym outcome = "string option"

type_synonym calls = "(string \<times> outcome) list"

type_synonym shell = "calls \<Rightarrow> string \<Rightarrow> outcome"

definition execAsync :: "shell \<Rightarrow> string \<Rightarrow> calls \<Rightarrow> outcome \<times> calls" where
  "execAsync sh cmd log = (sh log cmd, log @ [(cmd, sh log cmd)])"

definition succeeded :: "Drift \<Rightarrow> string \<Rightarrow> SyncAction" where
  "succeeded drift text =
     \<lparr> sa_drift = drift, sa_success = True, sa_action = Some text, sa_error = None \<rparr>"

definition failed :: "Drift \<Rightarrow> string \<Rightarrow> SyncAction" where
  "failed drift message =
     \<lparr> sa_drift = drift, sa_success = False, sa_action = None, sa_error = Some message \<rparr>"

text \<open>The \<open>try\<close> block around one call: the action pushed after the call resolves, or the
  failed action pushed by the \<open>catch\<close>.\<close>

definition attempt :: "shell \<Rightarrow> string \<Rightarrow> Drift \<Rightarrow> string \<Rightarrow> calls \<Rightarrow> SyncAction list \<times> calls" where
  "attempt sh cmd drift text log =
     (case execAsync sh cmd log of
        (None, log') \<Rightarrow> ([succeeded drift text], log')
      | (Some message, log') \<Rightarrow> ([failed drift message], log'))"

text \<open>A \<open>for (const drift of drifts)\<close> loop whose body pushes actions and may call the
  shell.\<close>

fun forEachDrift :: "(Drift \<Rightarrow> calls \<Rightarrow> SyncAction list \<times> calls) \<Rightarrow> Drift list \<Rightarrow> calls
    \<Rightarrow> SyncAction list \<times> calls" where
  "forEachDrift body [] log = ([], log)"
| "forEachDrift body (d # ds) log =
     (case body d log of
        (pushed, log') \<Rightarrow>
          (case forEachDrift body ds log' of
             (rest, log'') \<Rightarrow> (pushed @ rest, log'')))"

subsection \<open>The five category handlers\<close>

definition syncDependency :: "shell \<Rightarrow> bool \<Rightarrow> Drift \<Rightarrow> calls \<Rightarrow> SyncAction list \<times> calls" where
  "syncDependency sh dryRun drift log =
     (if d_field drift = ''lockfile''
      then ([succeeded drift ''Lockfile sync requires manual `npm install` or `npm ci`''], log)
      else
        let pkg = replaceFirst ''dependency.'' [] (d_field drift);
            targetVer = d_remote drift
        in if dryRun
           then ([succeeded drift (''[DRY RUN] Would '' @
                    (if truthyVal targetVer
                     then ''install '' @ pkg @ ''@'' @ template targetVer
                     else ''remove '' @ pkg))], log)
           else if \<not> truthyVal targetVer
           then attempt sh (''npm uninstall '' @ pkg) drift (''Removed '' @ pkg) log
           else attempt sh (''npm install '' @ pkg @ ''@'' @ template targetVer @ '' --save-exact'')
                  drift (''Updated '' @ pkg @ '' to '' @ template targetVer) log)"

definition syncDependencies :: "shell \<Rightarrow> bool \<Rightarrow> Drift list \<Rightarrow> calls \<Rightarrow> SyncAction list \<times> calls" where
  "syncDependencies sh dryRun = forEachDrift (syncDependency sh dryRun)"

definition syncEnvVar :: "Drift \<Rightarrow> calls \<Rightarrow> SyncAction list \<times> calls" where
  "syncEnvVar drift log =
     (let varName = replaceFirst ''env.'' [] (d_field drift)
      in ([succeeded drift (''[MANUAL] Set environment variable: '' @ varName @ ''='' @
             (if truthyVal (d_remote drift) then template (d_remote drift) else ''(unset)''))],
          log))"

definition syncEnvVars :: "shell \<Rightarrow> bool \<Rightarrow> Drift list \<Rightarrow> calls \<Rightarrow> SyncAction list \<times> calls" where
  "syncEnvVars sh dryRun = forEachDrift syncEnvVar"

definition syncDockerDrift :: "shell \<Rightarrow> bool \<Rightarrow> Drift \<Rightarrow> calls \<Rightarrow> SyncAction list \<times> calls" where
  "syncDockerDrift sh dryRun drift log =
     (if startsWith (d_field drift) ''docker.image.''
      then
        let img = d_remote drift
        in if dryRun
           then ([succeeded drift (''[DRY RUN] Would pull Docker image: '' @ template img)], log)
           else if truthyVal img
           then attempt sh (''docker pull '' @ template img) drift
                  (''Pulled Docker image: '' @ template img) log
           else ([], log)
      else ([succeeded drift (''[MANUAL] Docker '' @ d_field drift @ '' requires manual update'')],
            log))"

definition syncDocker :: "shell \<Rightarrow> bool \<Rightarrow> Drift list \<Rightarrow> calls \<Rightarrow> SyncAction list \<times> calls" where
  "syncDocker sh dryRun = forEachDrift (syncDockerDrift sh dryRun)"

definition syncNativeModule :: "shell \<Rightarrow> bool \<Rightarrow> Drift \<Rightarrow> calls \<Rightarrow> SyncAction list \<times> calls" where
  "syncNativeModule sh dryRun drift log =
     (let moduleName =
            (case splitOn CHR ''.'' (d_field drift) of
               _ # m # _ \<Rightarrow> m
             | _ \<Rightarrow> ''undefined'')
      in if dryRun
         then ([succeeded drift (''[DRY RUN] Would rebuild '' @ moduleName)], log)
         else attempt sh (''npm rebuild '' @ moduleName) drift
                (''Rebuilt native module: '' @ moduleName) log)"

definition syncNativeModules :: "shell \<Rightarrow> bool \<Rightarrow> Drift list \<Rightarrow> calls \<Rightarrow> SyncAction list \<times> calls" where
  "syncNativeModules sh dryRun = forEachDrift (syncNativeModule sh dryRun)"

definition syncNodeVersion :: "Drift list \<Rightarrow> SyncAction list" where
  "syncNodeVersion ds =
     map (\<lambda>drift. succeeded drift (''[MANUAL] Update Node.js to '' @ template (d_remote drift)
            @ '' (use nvm, volta, or system package manager)'')) ds"

subsection \<open>Filtering, grouping and the orchestrator\<close>

text \<open>\<open>severityOrder.indexOf\<close>: \<open>'none'\<close> is not in the array.\<close>

fun severityIndex :: "DriftSeverity \<Rightarrow> int" where
  "severityIndex Low = 0"
| "severityIndex Medium = 1"
| "severityIndex High = 2"
| "severityIndex Critical = 3"
| "severityIndex NoSeverity = - 1"

definition filterDrifts :: "SyncOptions \<Rightarrow> Drift list \<Rightarrow> Drift list" where
  "filterDrifts options ds =
     (let byCategory =
            (case opt_categories options of
               Some categories \<Rightarrow>
                 if length categories > 0
                 then filter (\<lambda>d. d_category d \<in> set categories) ds
                 else ds
             | None \<Rightarrow> ds)
      in case opt_maxSeverity options of
           Some maxSeverity \<Rightarrow>
             filter (\<lambda>d. severityIndex (d_severity d) \<le> severityIndex maxSeverity) byCategory
         | None \<Rightarrow> byCategory)"

definition groupDriftsByCategory :: "Drift list \<Rightarrow> (DriftCategory \<rightharpoonup> Drift list)" where
  "groupDriftsByCategory ds =
     foldl (\<lambda>grouped drift.
              grouped (d_category drift \<mapsto>
                (case grouped (d_category drift) of None \<Rightarrow> [] | Some g \<Rightarrow> g) @ [drift]))
           Map.empty ds"

text \<open>\<open>if (grouped.c) { actions.push(...await handler(grouped.c, {dryRun})) }\<close>\<close>

definition whenGrouped :: "Drift list option \<Rightarrow> (Drift list \<Rightarrow> calls \<Rightarrow> SyncAction list \<times> calls)
    \<Rightarrow> calls \<Rightarrow> SyncAction list \<times> calls" where
  "whenGrouped g handler log = (case g of None \<Rightarrow> ([], log) | Some ds \<Rightarrow> handler ds log)"

definition sync :: "shell \<Rightarrow> DriftReport \<Rightarrow> SyncOptions \<Rightarrow> SyncResult \<times> calls" where
  "sync sh driftReport options =
     (let dryRun = (case opt_dryRun options of None \<Rightarrow> False | Some b \<Rightarrow> b);
          grouped = groupDriftsByCategory (filterDrifts options (drifts driftReport))
      in case whenGrouped (grouped Dependency) (syncDependencies sh dryRun) [] of
           (depActions, log1) \<Rightarrow>
         case whenGrouped (grouped Envvar) (syncEnvVars sh dryRun) log1 of
           (envActions, log2) \<Rightarrow>
         case whenGrouped (grouped Docker) (syncDocker sh dryRun) log2 of
           (dockerActions, log3) \<Rightarrow>
         case whenGrouped (grouped Binary) (syncNativeModules sh dryRun) log3 of
           (binaryActions, log4) \<Rightarrow>
         case whenGrouped (grouped Nodejs) (\<lambda>ds log. (syncNodeVersion ds, log)) log4 of
           (nodeActions, log5) \<Rightarrow>
         let actions = depActions @ envActions @ dockerActions @ binaryActions @ nodeActions;
             nSucceeded = length (filter sa_success actions);
             nFailed = length (filter (\<lambda>a. \<not> sa_success a) actions)
         in (\<lparr> sr_success = (nFailed = 0),
               sr_actions = actions,
               sr_summary = \<lparr> ss_total = length actions,
                               ss_succeeded = nSucceeded,
                               ss_failed = nFailed \<rparr> \<rparr>,
             log5))"

section \<open>Well-formed snapshots and example inputs\<close>

text \<open>
  \<open>detectNativeModules\<close> stamps every module it finds with the platform, architecture
  and ABI of the running process, and derives the name from the package directory, so two
  \<open>.node\<close> files of one package share a name. In a well-formed snapshot, modules of the
  same name therefore agree on platform, architecture and ABI.
\<close>

definition sameBuild :: "NativeModuleInfo \<Rightarrow> NativeModuleInfo \<Rightarrow> bool" where
  "sameBuild m m' =
     (nm_platform m = nm_platform m' \<and> nm_arch m = nm_arch m' \<and> nm_nodeAbi m = nm_nodeAbi m')"

definition wellFormed :: "EnvironmentSnapshot \<Rightarrow> bool" where
  "wellFormed s =
     (let mods = dep_nativeModules (dependencies s)
      in list_all (\<lambda>m. list_all (\<lambda>m'. nm_name m = nm_name m' \<longrightarrow> sameBuild m m') mods) mods)"

text \<open>
  A concrete parser for the examples: the strict grammar of \<open>semver.parse\<close> on versions
  without pre-release and build metadata, \<open>v?MAJOR.MINOR.PATCH\<close> with numeric identifiers
  that have no leading zero, at most 256 characters and components up to
  \<open>Number.MAX_SAFE_INTEGER\<close>. The general theorems hold for every parser.
\<close>

definition isDigit :: "char \<Rightarrow> bool" where
  "isDigit c = (48 \<le> (of_char c :: nat) \<and> (of_char c :: nat) \<le> 57)"

definition numericIdentifier :: "string \<Rightarrow> nat option" where
  "numericIdentifier s =
     (if s \<noteq> [] \<and> list_all isDigit s \<and> (length s = 1 \<or> hd s \<noteq> CHR ''0'')
      then Some (foldl (\<lambda>n c. 10 * n + (of_char c - 48)) 0 s)
      else None)"

definition plainVersion :: parser where
  "plainVersion s =
     (case splitOn CHR ''.'' (if take 1 s = ''v'' then drop 1 s else s) of
        [a, b, c] \<Rightarrow>
          (case (numericIdentifier a, numericIdentifier b, numericIdentifier c) of
             (Some x, Some y, Some z) \<Rightarrow>
               if length s \<le> 256 \<and> max x (max y z) \<le> 9007199254740991
               then Some \<lparr> major = x, minor = y, patch = z \<rparr>
               else None
           | _ \<Rightarrow> None)
      | _ \<Rightarrow> None)"

text \<open>\<open>createMockSnapshot()\<close> of the comparator's tests, with the timestamp fixed.\<close>

definition createMockSnapshot :: EnvironmentSnapshot where
  "createMockSnapshot =
     \<lparr> timestamp = ValidDate 0,
       environment = Local,
       nodeVersion =
         \<lparr> nv_version = ''v18.0.0'', nv_npmVersion = ''9.0.0'', nv_platform = ''darwin'',
           nv_arch = ''x64'', nv_v8Version = ''10.0.0'', nv_modules = ''108'',
           nv_openssl = Some ''3.0.0'' \<rparr>,
       dependencies =
         \<lparr> dep_production = [], dep_development = [], dep_lockfileHash = ''abc123'',
           dep_nativeModules = [] \<rparr>,
       envVars = \<lparr> ev_variables = [], ev_redacted = [] \<rparr>,
       docker =
         \<lparr> dk_version = None, dk_platform = None, dk_arch = None, dk_images = [],
           dk_containers = [], dk_composeConfigs = [] \<rparr>,
       system =
         \<lparr> sys_platform = ''darwin'', sys_arch = ''x64'', sys_cpus = 8,
           sys_totalMemory = 16000000000, sys_freeMemory = 8000000000,
           sys_hostname = ''localhost'' \<rparr>,
       hash = ''test123'' \<rparr>"

definition withNpm :: "string \<Rightarrow> EnvironmentSnapshot" where
  "withNpm v = createMockSnapshot
     \<lparr> nodeVersion := (nodeVersion createMockSnapshot) \<lparr> nv_npmVersion := v \<rparr> \<rparr>"

definition withVersions :: "string \<Rightarrow> string \<Rightarrow> EnvironmentSnapshot" where
  "withVersions node npm = createMockSnapshot
     \<lparr> nodeVersion := (nodeVersion createMockSnapshot)
         \<lparr> nv_version := node, nv_npmVersion := npm \<rparr> \<rparr>"

definition withProduction :: "string obj \<Rightarrow> EnvironmentSnapshot" where
  "withProduction deps = createMockSnapshot
     \<lparr> dependencies := (dependencies createMockSnapshot) \<lparr> dep_production := deps \<rparr> \<rparr>"

definition withVariables :: "string obj \<Rightarrow> EnvironmentSnapshot" where
  "withVariables vars = createMockSnapshot \<lparr> envVars := \<lparr> ev_variables = vars, ev_redacted = [] \<rparr> \<rparr>"

definition composeFile :: DockerComposeConfig where
  "composeFile =
     \<lparr> cc_file = ''docker-compose.yml'', cc_version = None, cc_services = [''web''],
       cc_networks = [], cc_volumes = [] \<rparr>"

definition withCompose :: "DockerComposeConfig list \<Rightarrow> EnvironmentSnapshot" where
  "withCompose cs = createMockSnapshot
     \<lparr> docker := (docker createMockSnapshot) \<lparr> dk_composeConfigs := cs \<rparr> \<rparr>"

definition bcryptModule :: "string \<Rightarrow> NativeModuleInfo" where
  "bcryptModule file =
     \<lparr> nm_name = ''bcrypt'', nm_path = file, nm_platform = ''darwin'', nm_arch = ''x64'',
       nm_nodeAbi = ''108'', nm_size = 4096, nm_modified = ValidDate 1700000000000 \<rparr>"

definition sampleSnapshot :: EnvironmentSnapshot where
  "sampleSnapshot = createMockSnapshot
     \<lparr> dependencies :=
         \<lparr> dep_production = [(''express'', ''^4.0.0''), (''lodash'', [])],
           dep_development = [(''vitest'', ''1.0.0'')],
           dep_lockfileHash = ''abc123'',
           dep_nativeModules = [bcryptModule ''a.node'', bcryptModule ''b.node''] \<rparr>,
       envVars := \<lparr> ev_variables = [(''API_KEY'', ''[REDACTED]''), (''HOME'', ''/root'')],
                    ev_redacted = [''API_KEY''] \<rparr> \<rparr>"

section \<open>Notions used to state the orchestrator's properties\<close>

text \<open>The drifts of one category, in report order: what \<open>groupDriftsByCategory\<close> stores
  under that category.\<close>

definition ofCategory :: "DriftCategory \<Rightarrow> Drift list \<Rightarrow> Drift list" where
  "ofCategory c ds = filter (\<lambda>d. d_category d = c) ds"

text \<open>The order in which \<open>sync\<close> hands the groups to the handlers.\<close>

definition inSyncOrder :: "Drift list \<Rightarrow> Drift list" where
  "inSyncOrder ds =
     ofCategory Dependency ds @ ofCategory Envvar ds @ ofCategory Docker ds
     @ ofCategory Binary ds @ ofCategory Nodejs ds"

text \<open>\<open>const { dryRun = false } = options\<close>\<close>

definition dryRunOf :: "SyncOptions \<Rightarrow> bool" where
  "dryRunOf options = (case opt_dryRun options of None \<Rightarrow> False | Some b \<Rightarrow> b)"

text \<open>The five handlers run one after the other on the groups of a drift list: the body of
  \<open>sync\<close> after the filtering, with \<open>whenGrouped\<close> resolved (an absent group is an empty
  one). \<open>resultOf\<close> is the \<open>SyncResult\<close> that \<open>sync\<close> builds from the actions.\<close>

definition runAll :: "shell \<Rightarrow> bool \<Rightarrow> Drift list \<Rightarrow> SyncAction list \<times> calls" where
  "runAll sh dryRun ds =
     (case syncDependencies sh dryRun (ofCategory Dependency ds) [] of
        (depActions, log1) \<Rightarrow>
      case syncEnvVars sh dryRun (ofCategory Envvar ds) log1 of
        (envActions, log2) \<Rightarrow>
      case syncDocker sh dryRun (ofCategory Docker ds) log2 of
        (dockerActions, log3) \<Rightarrow>
      case syncNativeModules sh dryRun (ofCategory Binary ds) log3 of
        (binaryActions, log4) \<Rightarrow>
        (depActions @ envActions @ dockerActions @ binaryActions
           @ syncNodeVersion (ofCategory Nodejs ds), log4))"

definition resultOf :: "SyncAction list \<Rightarrow> SyncResult" where
  "resultOf actions =
     \<lparr> sr_success = (length (filter (\<lambda>a. \<not> sa_success a) actions) = 0),
       sr_actions = actions,
       sr_summary = \<lparr> ss_total = length actions,
                       ss_succeeded = length (filter sa_success actions),
                       ss_failed = length (filter (\<lambda>a. \<not> sa_success a) actions) \<rparr> \<rparr>"

text \<open>The error messages of the failed calls of a log, and the error descriptions of the
  failed actions of an action list, both in order.\<close>

definition failures :: "calls \<Rightarrow> string option list" where
  "failures log = map snd (filter (\<lambda>c. snd c \<noteq> None) log)"

definition errors :: "SyncAction list \<Rightarrow> string option list" where
  "errors actions = map sa_error (filter (\<lambda>a. \<not> sa_success a) actions)"




text \<open>The simulation marker of a dry run, and the drifts whose handler branch has a
  dry-run form: a dependency other than the lockfile, a container image, a native
  module.\<close>

definition simulated :: "SyncAction \<Rightarrow> bool" where
  "simulated a = (case sa_action a of None \<Rightarrow> False | Some t \<Rightarrow> startsWith t ''[DRY RUN]'')"

definition automated :: "Drift \<Rightarrow> bool" where
  "automated d =
     (case d_category d of
        Dependency \<Rightarrow> d_field d \<noteq> ''lockfile''
      | Docker \<Rightarrow> startsWith (d_field d) ''docker.image.''
      | Binary \<Rightarrow> True
      | _ \<Rightarrow> False)"

definition dryOutcome :: "SyncAction \<Rightarrow> bool" where
  "dryOutcome a = (sa_success a \<and> simulated a = automated (sa_drift a))"

text \<open>The manual instructions: the text of the lockfile branch, and every text that
  starts with \<open>[MANUAL]\<close>. An action is not automated when its drift is not.\<close>

definition manualInstruction :: "SyncAction \<Rightarrow> bool" where
  "manualInstruction a =
     (case sa_action a of
        None \<Rightarrow> False
      | Some t \<Rightarrow>
          t = ''Lockfile sync requires manual `npm install` or `npm ci`''
          \<or> startsWith t ''[MANUAL]'')"

definition notAutomated :: "SyncAction \<Rightarrow> bool" where
  "notAutomated a = (\<not> automated (sa_drift a))"

definition manualOrAutomated :: "SyncAction \<Rightarrow> bool" where
  "manualOrAutomated a = (automated (sa_drift a) \<or> manualInstruction a)"

subsection \<open>Example shells and reports\<close>

definition alwaysOk :: shell where
  "alwaysOk log cmd = None"

definition failingOn :: "string \<Rightarrow> string \<Rightarrow> shell" where
  "failingOn bad message log cmd = (if cmd = bad then Some message else None)"

definition npmDown :: shell where
  "npmDown = failingOn ''npm install express@5.0.0 --save-exact'' ''npm ERR! network''"

definition exampleLocal :: EnvironmentSnapshot where
  "exampleLocal = createMockSnapshot
     \<lparr> docker := (docker createMockSnapshot)
         \<lparr> dk_version := Some ''24.0.5'',
           dk_images := [\<lparr> img_id = ''ba9876543210'', img_tags = [''redis:7''],
                           img_size = 2000, img_created = None \<rparr>] \<rparr> \<rparr>"

definition exampleRemote :: EnvironmentSnapshot where
  "exampleRemote = createMockSnapshot
     \<lparr> dependencies := (dependencies createMockSnapshot)
         \<lparr> dep_production := [(''express'', ''5.0.0'')] \<rparr>,
       envVars := \<lparr> ev_variables = [(''PORT'', ''8080'')], ev_redacted = [] \<rparr>,
       docker := (docker createMockSnapshot)
         \<lparr> dk_version := Some ''24.0.5'',
           dk_images := [\<lparr> img_id = ''0123456789ab'', img_tags = [''nginx:latest''],
                           img_size = 1000, img_created = None \<rparr>] \<rparr> \<rparr>"

definition exampleReport :: DriftReport where
  "exampleReport = compareSnapshots plainVersion exampleLocal exampleRemote"

definition installExpress :: Drift where
  "installExpress =
     \<lparr> d_category = Dependency, d_severity = High, d_field = ''dependency.express'',
       d_local = Undefined, d_remote = Str ''5.0.0'',
       d_impact = ''Missing dependency - may cause runtime errors'',
       d_recommendation = ''Install express@5.0.0'' \<rparr>"

definition defaults :: SyncOptions where
  "defaults = \<lparr> opt_autoFix = None, opt_dryRun = None, opt_categories = None,
                 opt_maxSeverity = None \<rparr>"

definition dryRunOptions :: SyncOptions where
  "dryRunOptions = defaults \<lparr> opt_dryRun := Some True \<rparr>"

section \<open>Serialization (packages/core/src/snapshot.ts)\<close>

subsection \<open>Values in memory and JSON documents\<close>

text \<open>
  A snapshot in memory is a tree of JavaScript values; \<open>JSON.parse\<close> builds such trees
  without sharing, so the model is a datatype of trees. An object is the list of its own
  properties in \<open>Object.keys\<close> order.
\<close>

datatype js =
    JsUndefined
  | JsNull
  | JsBool bool
  | JsNum int
  | JsStr string
  | JsDate Date
  | JsArr "js list"
  | JsObj "(string \<times> js) list"

text \<open>
  The parts of \<open>JSON\<close> and \<open>Date\<close> that belong to the runtime are parameters:
  the text \<open>JSON.stringify(_, null, 2)\<close> prints for a document, \<open>JSON.parse\<close> (\<open>None\<close> when
  it throws \<open>SyntaxError\<close>), \<open>Date.prototype.toISOString\<close> on a time value, and the
  \<open>Date\<close> constructor on one argument.
\<close>

record runtime =
  printJSON :: "json \<Rightarrow> string"
  parseJSON :: "string \<Rightarrow> json option"
  toISOString :: "int \<Rightarrow> string"
  newDate :: "js \<Rightarrow> Date"

text \<open>
  The document \<open>JSON.stringify\<close> prints for a value (\<open>SerializeJSONProperty\<close>): a valid
  date becomes its ISO string through \<open>toJSON\<close>, an invalid date becomes \<open>null\<close>, a
  property whose value is \<open>undefined\<close> is left out, an \<open>undefined\<close> array element becomes
  \<open>null\<close>. \<open>None\<close> is the result \<open>undefined\<close>.
\<close>

fun document :: "(int \<Rightarrow> string) \<Rightarrow> js \<Rightarrow> json option"
  and documentElements :: "(int \<Rightarrow> string) \<Rightarrow> js list \<Rightarrow> json list"
  and documentProperties :: "(int \<Rightarrow> string) \<Rightarrow> (string \<times> js) list \<Rightarrow> (string \<times> json) list"
where
  "document toISO JsUndefined = None"
| "document toISO JsNull = Some JNull"
| "document toISO (JsBool b) = Some (JBool b)"
| "document toISO (JsNum n) = Some (JNum n)"
| "document toISO (JsStr s) = Some (JStr s)"
| "document toISO (JsDate d) =
     (case d of ValidDate t \<Rightarrow> Some (JStr (toISO t)) | InvalidDate \<Rightarrow> Some JNull)"
| "document toISO (JsArr xs) = Some (JArr (documentElements toISO xs))"
| "document toISO (JsObj ps) = Some (JObj (documentProperties toISO ps))"
| "documentElements toISO [] = []"
| "documentElements toISO (x # xs) =
     (case document toISO x of None \<Rightarrow> JNull | Some j \<Rightarrow> j) # documentElements toISO xs"
| "documentProperties toISO [] = []"
| "documentProperties toISO (p # ps) =
     (case document toISO (snd p) of
        None \<Rightarrow> documentProperties toISO ps
      | Some j \<Rightarrow> (fst p, j) # documentProperties toISO ps)"

text \<open>The value \<open>JSON.parse\<close> builds from a document.\<close>

fun ofJson :: "json \<Rightarrow> js"
  and ofJsonElements :: "json list \<Rightarrow> js list"
  and ofJsonProperties :: "(string \<times> json) list \<Rightarrow> (string \<times> js) list"
where
  "ofJson JNull = JsNull"
| "ofJson (JBool b) = JsBool b"
| "ofJson (JNum n) = JsNum n"
| "ofJson (JStr s) = JsStr s"
| "ofJson (JArr xs) = JsArr (ofJsonElements xs)"
| "ofJson (JObj ps) = JsObj (ofJsonProperties ps)"
| "ofJsonElements [] = []"
| "ofJsonElements (x # xs) = ofJson x # ofJsonElements xs"
| "ofJsonProperties [] = []"
| "ofJsonProperties (p # ps) = (fst p, ofJson (snd p)) # ofJsonProperties ps"

subsection \<open>Property access\<close>

datatype error = SyntaxError | TypeError

fun truthyJs :: "js \<Rightarrow> bool" where
  "truthyJs JsUndefined = False"
| "truthyJs JsNull = False"
| "truthyJs (JsBool b) = b"
| "truthyJs (JsNum n) = (n \<noteq> 0)"
| "truthyJs (JsStr s) = (s \<noteq> [])"
| "truthyJs (JsDate d) = True"
| "truthyJs (JsArr xs) = True"
| "truthyJs (JsObj ps) = True"

text \<open>\<open>v.k\<close> for the property names the deserializer reads (\<open>timestamp\<close>, \<open>docker\<close>,
  \<open>images\<close>, \<open>created\<close>, \<open>dependencies\<close>, \<open>nativeModules\<close>, \<open>modified\<close>): none of them is a
  property of an array, a string, a number, a boolean or a date.\<close>

fun getProp :: "js \<Rightarrow> string \<Rightarrow> error + js" where
  "getProp JsUndefined k = Inl TypeError"
| "getProp JsNull k = Inl TypeError"
| "getProp (JsObj ps) k = Inr (case map_of ps k of None \<Rightarrow> JsUndefined | Some v \<Rightarrow> v)"
| "getProp v k = Inr JsUndefined"

text \<open>\<open>v?.k\<close>\<close>

fun getPropOptional :: "js \<Rightarrow> string \<Rightarrow> js" where
  "getPropOptional (JsObj ps) k = (case map_of ps k of None \<Rightarrow> JsUndefined | Some v \<Rightarrow> v)"
| "getPropOptional v k = JsUndefined"

text \<open>\<open>v.k = x\<close> in strict mode (an ES module): an existing property keeps its place, a
  new one is appended; a primitive refuses the assignment. A named property set on an
  array does not show in its document, so the array is left as it is.\<close>

fun setProp :: "js \<Rightarrow> string \<Rightarrow> js \<Rightarrow> error + js" where
  "setProp (JsObj ps) k x = Inr (JsObj (AList.update k x ps))"
| "setProp (JsArr xs) k x = Inr (JsArr xs)"
| "setProp (JsDate d) k x = Inr (JsDate d)"
| "setProp v k x = Inl TypeError"

text \<open>The own enumerable properties that \<open>{...v}\<close> copies.\<close>

fun spreadProps :: "js \<Rightarrow> (string \<times> js) list" where
  "spreadProps (JsObj ps) = ps"
| "spreadProps (JsArr xs) = map (\<lambda>i. (showNat i, xs ! i)) [0 ..< length xs]"
| "spreadProps (JsStr s) = map (\<lambda>i. (showNat i, JsStr [s ! i])) [0 ..< length s]"
| "spreadProps v = []"

text \<open>\<open>xs.map(f)\<close> where \<open>f\<close> may throw: the first exception ends the loop.\<close>

fun mapM :: "('a \<Rightarrow> error + 'b) \<Rightarrow> 'a list \<Rightarrow> error + 'b list" where
  "mapM f [] = Inr []"
| "mapM f (x # xs) =
     (case f x of
        Inl e \<Rightarrow> Inl e
      | Inr y \<Rightarrow> (case mapM f xs of Inl e \<Rightarrow> Inl e | Inr ys \<Rightarrow> Inr (y # ys)))"

text \<open>\<open>v.map(f)\<close>: only an array has the method.\<close>

fun mapArray :: "(js \<Rightarrow> error + js) \<Rightarrow> js \<Rightarrow> error + js" where
  "mapArray f (JsArr xs) = (case mapM f xs of Inl e \<Rightarrow> Inl e | Inr ys \<Rightarrow> Inr (JsArr ys))"
| "mapArray f v = Inl TypeError"

subsection \<open>serializeSnapshot and deserializeSnapshot\<close>

definition serializeSnapshot :: "runtime \<Rightarrow> js \<Rightarrow> string option" where
  "serializeSnapshot rt snapshot =
     map_option (printJSON rt) (document (toISOString rt) snapshot)"

text \<open>\<open>img => ({ ...img, created: img.created ? new Date(img.created) : undefined })\<close>\<close>

definition reviveImage :: "runtime \<Rightarrow> js \<Rightarrow> error + js" where
  "reviveImage rt img =
     (case getProp img ''created'' of
        Inl e \<Rightarrow> Inl e
      | Inr created \<Rightarrow>
          Inr (JsObj (AList.update ''created''
                 (if truthyJs created then JsDate (newDate rt created) else JsUndefined)
                 (spreadProps img))))"

text \<open>\<open>mod => ({ ...mod, modified: new Date(mod.modified) })\<close>\<close>

definition reviveModule :: "runtime \<Rightarrow> js \<Rightarrow> error + js" where
  "reviveModule rt m =
     (case getProp m ''modified'' of
        Inl e \<Rightarrow> Inl e
      | Inr modified \<Rightarrow>
          Inr (JsObj (AList.update ''modified'' (JsDate (newDate rt modified)) (spreadProps m))))"

text \<open>\<open>if (parsed.owner?.field) { parsed.owner.field = parsed.owner.field.map(f) }\<close>: the
  two conditional blocks of \<open>deserializeSnapshot\<close>.\<close>

definition reviveList :: "(js \<Rightarrow> error + js) \<Rightarrow> string \<Rightarrow> string \<Rightarrow> js \<Rightarrow> error + js" where
  "reviveList f owner field parsed =
     (case getProp parsed owner of
        Inl e \<Rightarrow> Inl e
      | Inr ownerValue \<Rightarrow>
          if truthyJs (getPropOptional ownerValue field)
          then (case mapArray f (getPropOptional ownerValue field) of
                  Inl e \<Rightarrow> Inl e
                | Inr mapped \<Rightarrow>
                    (case setProp ownerValue field mapped of
                       Inl e \<Rightarrow> Inl e
                     | Inr ownerValue' \<Rightarrow> setProp parsed owner ownerValue'))
          else Inr parsed)"

definition deserializeSnapshot :: "runtime \<Rightarrow> string \<Rightarrow> error + js" where
  "deserializeSnapshot rt data =
     (case parseJSON rt data of
        None \<Rightarrow> Inl SyntaxError
      | Some doc \<Rightarrow>
          (case getProp (ofJson doc) ''timestamp'' of
             Inl e \<Rightarrow> Inl e
           | Inr ts \<Rightarrow>
               (case setProp (ofJson doc) ''timestamp'' (JsDate (newDate rt ts)) of
                  Inl e \<Rightarrow> Inl e
                | Inr parsed1 \<Rightarrow>
                    (case reviveList (reviveImage rt) ''docker'' ''images'' parsed1 of
                       Inl e \<Rightarrow> Inl e
                     | Inr parsed2 \<Rightarrow>
                         reviveList (reviveModule rt) ''dependencies'' ''nativeModules''
                           parsed2))))"

subsection \<open>The snapshot the assembler builds\<close>

text \<open>
  The object literals of \<open>captureSnapshot\<close> and of the capture functions, property by
  property in source order. An optional field that is absent holds \<open>undefined\<close>; the three
  nullable fields of the container state hold \<open>null\<close>.
\<close>

definition optionalString :: "string option \<Rightarrow> js" where
  "optionalString v = (case v of None \<Rightarrow> JsUndefined | Some s \<Rightarrow> JsStr s)"

definition nullableString :: "string option \<Rightarrow> js" where
  "nullableString v = (case v of None \<Rightarrow> JsNull | Some s \<Rightarrow> JsStr s)"

definition strings :: "string list \<Rightarrow> js" where
  "strings xs = JsArr (map JsStr xs)"

definition dictionary :: "string obj \<Rightarrow> js" where
  "dictionary ob = JsObj (map (\<lambda>p. (fst p, JsStr (snd p))) ob)"

fun environmentName :: "EnvironmentType \<Rightarrow> string" where
  "environmentName Local = ''local''"
| "environmentName Staging = ''staging''"
| "environmentName Production = ''production''"
| "environmentName Ci = ''ci''"
| "environmentName DockerEnv = ''docker''"

definition nodeVersionObject :: "NodeVersionInfo \<Rightarrow> js" where
  "nodeVersionObject nv =
     JsObj [(''version'', JsStr (nv_version nv)),
            (''npmVersion'', JsStr (nv_npmVersion nv)),
            (''platform'', JsStr (nv_platform nv)),
            (''arch'', JsStr (nv_arch nv)),
            (''v8Version'', JsStr (nv_v8Version nv)),
            (''modules'', JsStr (nv_modules nv)),
            (''openssl'', optionalString (nv_openssl nv))]"

definition moduleObject :: "NativeModuleInfo \<Rightarrow> js" where
  "moduleObject m =
     JsObj [(''name'', JsStr (nm_name m)),
            (''path'', JsStr (nm_path m)),
            (''platform'', JsStr (nm_platform m)),
            (''arch'', JsStr (nm_arch m)),
            (''nodeAbi'', JsStr (nm_nodeAbi m)),
            (''size'', JsNum (nm_size m)),
            (''modified'', JsDate (nm_modified m))]"

definition dependenciesObject :: "DependencySnapshot \<Rightarrow> js" where
  "dependenciesObject dp =
     JsObj [(''production'', dictionary (dep_production dp)),
            (''development'', dictionary (dep_development dp)),
            (''lockfileHash'', JsStr (dep_lockfileHash dp)),
            (''nativeModules'', JsArr (map moduleObject (dep_nativeModules dp)))]"

definition envVarsObject :: "EnvironmentVariables \<Rightarrow> js" where
  "envVarsObject ev =
     JsObj [(''variables'', dictionary (ev_variables ev)),
            (''redacted'', strings (ev_redacted ev))]"

definition imageObject :: "DockerImage \<Rightarrow> js" where
  "imageObject img =
     JsObj [(''id'', JsStr (img_id img)),
            (''tags'', strings (img_tags img)),
            (''size'', JsNum (img_size img)),
            (''created'', (case img_created img of None \<Rightarrow> JsUndefined | Some d \<Rightarrow> JsDate d))]"

definition containerObject :: "DockerContainer \<Rightarrow> js" where
  "containerObject c =
     JsObj [(''id'', JsStr (ctr_id c)),
            (''name'', JsStr (ctr_name c)),
            (''image'', JsStr (ctr_image c)),
            (''state'', JsStr (ctr_state c)),
            (''ports'', (case ctr_ports c of
                          None \<Rightarrow> JsUndefined
                        | Some ports \<Rightarrow> JsArr (ofJsonElements ports)))]"

definition composeObject :: "DockerComposeConfig \<Rightarrow> js" where
  "composeObject cc =
     JsObj [(''file'', JsStr (cc_file cc)),
            (''version'', optionalString (cc_version cc)),
            (''services'', strings (cc_services cc)),
            (''networks'', strings (cc_networks cc)),
            (''volumes'', strings (cc_volumes cc))]"

definition dockerObject :: "DockerSnapshot \<Rightarrow> js" where
  "dockerObject dk =
     JsObj [(''version'', nullableString (dk_version dk)),
            (''platform'', nullableString (dk_platform dk)),
            (''arch'', nullableString (dk_arch dk)),
            (''images'', JsArr (map imageObject (dk_images dk))),
            (''containers'', JsArr (map containerObject (dk_containers dk))),
            (''composeConfigs'', JsArr (map composeObject (dk_composeConfigs dk)))]"

definition systemObject :: "SystemInfo \<Rightarrow> js" where
  "systemObject sy =
     JsObj [(''platform'', JsStr (sys_platform sy)),
            (''arch'', JsStr (sys_arch sy)),
            (''cpus'', JsNum (sys_cpus sy)),
            (''totalMemory'', JsNum (sys_totalMemory sy)),
            (''freeMemory'', JsNum (sys_freeMemory sy)),
            (''hostname'', JsStr (sys_hostname sy))]"

definition snapshotObject :: "EnvironmentSnapshot \<Rightarrow> js" where
  "snapshotObject s =
     JsObj [(''timestamp'', JsDate (timestamp s)),
            (''environment'', JsStr (environmentName (environment s))),
            (''nodeVersion'', nodeVersionObject (nodeVersion s)),
            (''dependencies'', dependenciesObject (dependencies s)),
            (''envVars'', envVarsObject (envVars s)),
            (''docker'', dockerObject (docker s)),
            (''system'', systemObject (system s)),
            (''hash'', JsStr (hash s))]"

text \<open>
  The date-typed fields of a snapshot: the timestamp, the creation time of every image
  that has one, the modification time of every native module. The assembler fills them with
  \<open>new Date()\<close>, with \<open>new Date(img.Created * 1000)\<close> and with the \<open>mtime\<close> of a file:
  valid dates. A date is restorable when it is valid, its ISO string is not empty, and the
  \<open>Date\<close> constructor reads the ISO string back to the same time value (ECMA-262
  guarantees both for every valid date). The document of a snapshot reads back when
  \<open>JSON.parse\<close> returns the document that \<open>JSON.stringify\<close> printed.
\<close>

definition datesOf :: "EnvironmentSnapshot \<Rightarrow> Date list" where
  "datesOf s =
     timestamp s
     # concat (map (\<lambda>img. case img_created img of None \<Rightarrow> [] | Some d \<Rightarrow> [d])
                   (dk_images (docker s)))
     @ map nm_modified (dep_nativeModules (dependencies s))"

definition restorable :: "runtime \<Rightarrow> Date \<Rightarrow> bool" where
  "restorable rt d =
     (case d of
        ValidDate t \<Rightarrow>
          toISOString rt t \<noteq> [] \<and> newDate rt (JsStr (toISOString rt t)) = ValidDate t
      | InvalidDate \<Rightarrow> False)"

definition readsBack :: "runtime \<Rightarrow> js \<Rightarrow> bool" where
  "readsBack rt v =
     (case document (toISOString rt) v of
        None \<Rightarrow> True
      | Some doc \<Rightarrow> parseJSON rt (printJSON rt doc) = Some doc)"

text \<open>The document of the timestamp of a snapshot: what the deserializer hands to the
  \<open>Date\<close> constructor.\<close>

definition timestampDocument :: "runtime \<Rightarrow> EnvironmentSnapshot \<Rightarrow> json" where
  "timestampDocument rt s =
     (case timestamp s of ValidDate t \<Rightarrow> JStr (toISOString rt t) | InvalidDate \<Rightarrow> JNull)"

subsection \<open>An example runtime\<close>

text \<open>
  A printer in the layout of \<open>JSON.stringify(_, null, 2)\<close> for strings without control
  characters, and a runtime that agrees with ECMA-262 on the values of the example: the two
  dates of \<open>datedSnapshot\<close> and their ISO strings, and the text of its document.
\<close>

definition showInt :: "int \<Rightarrow> string" where
  "showInt i = (if i < 0 then ''-'' @ showNat (nat (- i)) else showNat (nat i))"

definition quoted :: "string \<Rightarrow> string" where
  "quoted s =
     [CHR 0x22]
     @ concat (map (\<lambda>c. if c = CHR 0x22 \<or> c = CHR 0x5C then [CHR 0x5C, c] else [c]) s)
     @ [CHR 0x22]"

definition newline :: "nat \<Rightarrow> string" where
  "newline n = CHR 0x0A # replicate n CHR '' ''"

fun joinWith :: "string \<Rightarrow> string list \<Rightarrow> string" where
  "joinWith sep [] = []"
| "joinWith sep [x] = x"
| "joinWith sep (x # y # ys) = x @ sep @ joinWith sep (y # ys)"

fun render :: "nat \<Rightarrow> json \<Rightarrow> string"
  and renderElements :: "nat \<Rightarrow> json list \<Rightarrow> string list"
  and renderProperties :: "nat \<Rightarrow> (string \<times> json) list \<Rightarrow> string list"
where
  "render n JNull = ''null''"
| "render n (JBool b) = (if b then ''true'' else ''false'')"
| "render n (JNum i) = showInt i"
| "render n (JStr s) = quoted s"
| "render n (JArr xs) =
     (if xs = [] then ''[]''
      else ''['' @ newline (n + 2)
           @ joinWith ('','' @ newline (n + 2)) (renderElements (n + 2) xs)
           @ newline n @ '']'')"
| "render n (JObj ps) =
     (if ps = [] then ''{}''
      else ''{'' @ newline (n + 2)
           @ joinWith ('','' @ newline (n + 2)) (renderProperties (n + 2) ps)
           @ newline n @ ''}'')"
| "renderElements n [] = []"
| "renderElements n (x # xs) = render n x # renderElements n xs"
| "renderProperties n [] = []"
| "renderProperties n (p # ps) =
     (quoted (fst p) @ '': '' @ render n (snd p)) # renderProperties n ps"

definition exampleISO :: "int \<Rightarrow> string" where
  "exampleISO t =
     (if t = 0 then ''1970-01-01T00:00:00.000Z''
      else if t = 1700000000000 then ''2023-11-14T22:13:20.000Z''
      else ''unlisted'')"

definition exampleNewDate :: "js \<Rightarrow> Date" where
  "exampleNewDate v =
     (if v = JsStr ''1970-01-01T00:00:00.000Z'' \<or> v = JsNull then ValidDate 0
      else if v = JsStr ''2023-11-14T22:13:20.000Z'' then ValidDate 1700000000000
      else InvalidDate)"

definition datedSnapshot :: EnvironmentSnapshot where
  "datedSnapshot = sampleSnapshot
     \<lparr> docker := (docker sampleSnapshot)
         \<lparr> dk_version := Some ''24.0.5'',
           dk_images :=
             [\<lparr> img_id = ''0123456789ab'', img_tags = [''nginx:latest''], img_size = 1000,
                 img_created = Some (ValidDate 1700000000000) \<rparr>,
              \<lparr> img_id = ''ba9876543210'', img_tags = [], img_size = 2000,
                 img_created = None \<rparr>] \<rparr> \<rparr>"

definition exampleDocument :: json where
  "exampleDocument = the (document exampleISO (snapshotObject datedSnapshot))"

definition exampleRuntime :: runtime where
  "exampleRuntime =
     \<lparr> printJSON = render 0,
       parseJSON = (\<lambda>text. if text = render 0 exampleDocument then Some exampleDocument
                            else None),
       toISOString = exampleISO,
       newDate = exampleNewDate \<rparr>"

section \<open>Properties of the comparator\<close>

subsection \<open>Auxiliary facts\<close>

lemmas parser_simps = plainVersion_def numericIdentifier_def isDigit_def

lemma newSet_foldl_set:
  "set (foldl (\<lambda>acc x. if x \<in> set acc then acc else acc @ [x]) acc xs) = set acc \<union> set xs"
  by (induction xs arbitrary: acc) auto

lemma newSet_foldl_distinct:
  "distinct acc \<Longrightarrow> distinct (foldl (\<lambda>acc x. if x \<in> set acc then acc else acc @ [x]) acc xs)"
  by (induction xs arbitrary: acc) auto

lemma set_newSet [simp]: "set (newSet xs) = set xs"
  by (simp add: newSet_def newSet_foldl_set)

lemma distinct_newSet [simp]: "distinct (newSet xs)"
  by (simp add: newSet_def newSet_foldl_distinct)

lemma semverParse_Some [simp]: "semverParse parse (Some s) = parse s"
  by (simp add: semverParse_def)

lemma semverParse_None [simp]: "semverParse parse None = None"
  by (simp add: semverParse_def)

lemma keys_map_of: "key \<in> set (keys ob) \<longleftrightarrow> map_of ob key \<noteq> None"
  by (simp add: keys_def map_of_eq_None_iff)

lemma filter_key_distinct:
  "distinct xs \<Longrightarrow>
   filter (\<lambda>k. P k \<and> k = key) xs = (if key \<in> set xs \<and> P key then [key] else [])"
  by (induction xs) auto

lemma showNat_0 [simp]: "showNat 0 = ''0''"
  by (simp add: showNat.simps)

lemma showNat_1 [simp]: "showNat (Suc 0) = ''1''"
  by (simp add: showNat.simps)

subsection \<open>Self-comparison\<close>

lemma packageDrift_self: "packageDrift parse a a pkg = []"
  by (simp add: packageDrift_def Let_def)

lemma compareDependencies_self: "compareDependencies parse s s = []"
  by (simp add: compareDependencies_def Let_def packageDrift_self)

lemma compareNodeVersions_self: "compareNodeVersions parse s s = []"
  by (simp add: compareNodeVersions_def)

lemma compareEnvironmentVars_self: "compareEnvironmentVars s s = []"
  by (simp add: compareEnvironmentVars_def compareEnvVars_def Let_def differs_def)

lemma compareDocker_self: "compareDocker s s = []"
  by (simp add: compareDocker_def compareDockerConfigs_def Let_def)

lemma find_same_name:
  assumes "m \<in> set mods"
  obtains m' where "find (\<lambda>x. nm_name x = nm_name m) mods = Some m'"
    and "m' \<in> set mods" and "nm_name m' = nm_name m"
proof (cases "find (\<lambda>x. nm_name x = nm_name m) mods")
  case None
  with assms show ?thesis by (auto simp: find_None_iff)
next
  case (Some m')
  then have "m' \<in> set mods" "nm_name m' = nm_name m"
    by (auto simp: find_Some_iff in_set_conv_nth)
  with Some that show ?thesis by blast
qed

lemma localModuleDrift_Nil_iff:
  "find (\<lambda>x. nm_name x = nm_name m) mods = Some m' \<Longrightarrow>
   localModuleDrift mods m = [] \<longleftrightarrow> sameBuild m m'"
  by (auto simp: localModuleDrift_def sameBuild_def)

lemma remoteModuleDrift_self: "m \<in> set mods \<Longrightarrow> remoteModuleDrift mods m = []"
  by (erule find_same_name) (simp add: remoteModuleDrift_def)

lemma compareNativeModules_self_iff:
  "compareNativeModules mods mods = [] \<longleftrightarrow>
   (\<forall>m \<in> set mods. \<forall>m' \<in> set mods. nm_name m = nm_name m' \<longrightarrow> sameBuild m m')"
proof
  assume nil: "compareNativeModules mods mods = []"
  have first: "sameBuild m f"
    if "m \<in> set mods" "find (\<lambda>x. nm_name x = nm_name m) mods = Some f" for m f
  proof -
    from nil that(1) have "localModuleDrift mods m = []"
      by (auto simp: compareNativeModules_def)
    with that(2) show ?thesis by (simp add: localModuleDrift_Nil_iff)
  qed
  show "\<forall>m \<in> set mods. \<forall>m' \<in> set mods. nm_name m = nm_name m' \<longrightarrow> sameBuild m m'"
  proof (intro ballI impI)
    fix m m' assume m: "m \<in> set mods" and m': "m' \<in> set mods"
      and eq: "nm_name m = nm_name m'"
    from m obtain f where f: "find (\<lambda>x. nm_name x = nm_name m) mods = Some f"
      by (rule find_same_name)
    from f eq have f': "find (\<lambda>x. nm_name x = nm_name m') mods = Some f" by simp
    from first [OF m f] first [OF m' f'] show "sameBuild m m'"
      by (simp add: sameBuild_def)
  qed
next
  assume wf: "\<forall>m \<in> set mods. \<forall>m' \<in> set mods. nm_name m = nm_name m' \<longrightarrow> sameBuild m m'"
  have "localModuleDrift mods m = []" if m: "m \<in> set mods" for m
  proof -
    from m obtain f where f: "find (\<lambda>x. nm_name x = nm_name m) mods = Some f"
      and "f \<in> set mods" "nm_name f = nm_name m"
      by (rule find_same_name)
    with wf m have "sameBuild m f" by metis
    with f show ?thesis by (simp add: localModuleDrift_Nil_iff)
  qed
  then show "compareNativeModules mods mods = []"
    by (simp add: compareNativeModules_def remoteModuleDrift_self)
qed

lemma wellFormed_iff:
  "wellFormed s \<longleftrightarrow>
   compareNativeModules (dep_nativeModules (dependencies s))
     (dep_nativeModules (dependencies s)) = []"
  by (simp add: wellFormed_def Let_def compareNativeModules_self_iff list_all_iff)

text \<open>
  C1. Comparing a well-formed snapshot with itself gives a report with no drift at all:
  the drift list is empty, \<open>hasDrift\<close> is false and the overall severity is \<open>none\<close>,
  whatever the version parser does.
\<close>

theorem compareSnapshots_self:
  assumes "wellFormed s"
  shows "drifts (compareSnapshots parse s s) = []
         \<and> hasDrift (compareSnapshots parse s s) = False
         \<and> severity (compareSnapshots parse s s) = NoSeverity"
  using assms
  by (simp add: compareSnapshots_def Let_def wellFormed_iff compareNodeVersions_self
      compareDependencies_self compareEnvironmentVars_self compareDocker_self
      assessOverallSeverity_def)

theorem compareSnapshots_self_witness:
  "wellFormed sampleSnapshot
   \<and> drifts (compareSnapshots plainVersion sampleSnapshot sampleSnapshot) = []
   \<and> hasDrift (compareSnapshots plainVersion sampleSnapshot sampleSnapshot) = False
   \<and> severity (compareSnapshots plainVersion sampleSnapshot sampleSnapshot) = NoSeverity"
proof -
  have wf: "wellFormed sampleSnapshot"
    by (simp add: wellFormed_def sampleSnapshot_def createMockSnapshot_def bcryptModule_def
        sameBuild_def)
  from wf compareSnapshots_self [OF wf, of plainVersion] show ?thesis by simp
qed

text \<open>The condition is needed: a self-comparison without drift forces it. Two modules
  of one name that differ in platform make the snapshot drift from itself.\<close>

lemma self_comparison_needs_wellFormed:
  "drifts (compareSnapshots parse s s) = [] \<Longrightarrow> wellFormed s"
  by (simp add: compareSnapshots_def Let_def wellFormed_iff)

lemma mixed_builds_drift_from_themselves:
  "map d_field (drifts (compareSnapshots plainVersion
      (createMockSnapshot \<lparr> dependencies := (dependencies createMockSnapshot)
         \<lparr> dep_nativeModules :=
             [bcryptModule ''a.node'', (bcryptModule ''b.node'') \<lparr> nm_platform := ''linux'' \<rparr>] \<rparr> \<rparr>)
      (createMockSnapshot \<lparr> dependencies := (dependencies createMockSnapshot)
         \<lparr> dep_nativeModules :=
             [bcryptModule ''a.node'', (bcryptModule ''b.node'') \<lparr> nm_platform := ''linux'' \<rparr>] \<rparr> \<rparr>)))
   = [''native.bcrypt.platform'']"
  by (simp add: compareSnapshots_def Let_def compareNodeVersions_self
      compareDependencies_self compareEnvironmentVars_self compareDocker_self
      compareNativeModules_def localModuleDrift_def remoteModuleDrift_def
      createMockSnapshot_def bcryptModule_def)

subsection \<open>Severity classifier\<close>

text \<open>
  C2. For two version strings, \<open>assessVersionDrift\<close> returns \<open>medium\<close> when the parser
  rejects either of them; when both parse it returns \<open>high\<close> if the major components
  differ, else \<open>medium\<close> if the minor components differ, else \<open>low\<close>. The witness
  instantiates it at 1.0.0 against 2.0.0 (high), 1.2.0 against 1.3.0 (medium), 1.2.3
  against 1.2.4 (low) and at a range that does not parse (medium).
\<close>

theorem assessVersionDrift_rules:
  "(parse l = None \<or> parse r = None \<longrightarrow> assessVersionDrift parse (Some l) (Some r) = Medium)
   \<and> (\<forall>a b. parse l = Some a \<and> parse r = Some b \<longrightarrow>
        assessVersionDrift parse (Some l) (Some r) =
          (if major a \<noteq> major b then High
           else if minor a \<noteq> minor b then Medium
           else Low))"
  by (auto simp: assessVersionDrift_def split: option.splits)

theorem assessVersionDrift_rules_witness:
  "assessVersionDrift plainVersion (Some ''1.0.0'') (Some ''2.0.0'') = High
   \<and> assessVersionDrift plainVersion (Some ''1.2.0'') (Some ''1.3.0'') = Medium
   \<and> assessVersionDrift plainVersion (Some ''1.2.3'') (Some ''1.2.4'') = Low
   \<and> assessVersionDrift plainVersion (Some ''^4.0.0'') (Some ''5.0.0'') = Medium"
  using assessVersionDrift_rules [of plainVersion "''1.0.0''" "''2.0.0''"]
    assessVersionDrift_rules [of plainVersion "''1.2.0''" "''1.3.0''"]
    assessVersionDrift_rules [of plainVersion "''1.2.3''" "''1.2.4''"]
    assessVersionDrift_rules [of plainVersion "''^4.0.0''" "''5.0.0''"]
  by (simp add: parser_simps)

subsection \<open>Runtime sub-comparison\<close>

text \<open>
  C9, as the code has it. A difference between the two npm version strings is not
  classified at all: \<open>compareNodeVersions\<close> reports it as one drift on the field
  \<open>npmVersion\<close> whose severity is the constant \<open>low\<close>, whichever component differs and
  whether or not the strings parse. Only the Node.js version is classified: the fields and
  severities of the runtime sub-comparison are, in order, \<open>nodeVersion\<close> with the severity
  of the major/minor/patch rules (\<open>medium\<close> when a string does not parse, else \<open>high\<close> for
  a major difference, else \<open>medium\<close> for a minor difference, else \<open>low\<close>), \<open>npmVersion\<close>
  with \<open>low\<close>, \<open>platform\<close> with \<open>critical\<close> and \<open>arch\<close> with \<open>critical\<close>, each present
  exactly when the two values differ.
\<close>

theorem npmVersion_always_low:
  "(nv_npmVersion (nodeVersion l) \<noteq> nv_npmVersion (nodeVersion r) \<longrightarrow>
     filter (\<lambda>d. d_field d = ''npmVersion'') (compareNodeVersions parse l r) =
       [\<lparr> d_category = Nodejs,
          d_severity = Low,
          d_field = ''npmVersion'',
          d_local = Str (nv_npmVersion (nodeVersion l)),
          d_remote = Str (nv_npmVersion (nodeVersion r)),
          d_impact = ''Package installation behavior may differ'',
          d_recommendation = ''Update npm to '' @ nv_npmVersion (nodeVersion r) \<rparr>])
   \<and> map (\<lambda>d. (d_field d, d_severity d)) (compareNodeVersions parse l r) =
       (if nv_version (nodeVersion l) \<noteq> nv_version (nodeVersion r)
        then [(''nodeVersion'',
               case (parse (nv_version (nodeVersion l)), parse (nv_version (nodeVersion r))) of
                 (Some localVer, Some remoteVer) \<Rightarrow>
                   if major localVer \<noteq> major remoteVer then High
                   else if minor localVer \<noteq> minor remoteVer then Medium
                   else Low
               | _ \<Rightarrow> Medium)]
        else [])
       @ (if nv_npmVersion (nodeVersion l) \<noteq> nv_npmVersion (nodeVersion r)
          then [(''npmVersion'', Low)] else [])
       @ (if nv_platform (nodeVersion l) \<noteq> nv_platform (nodeVersion r)
          then [(''platform'', Critical)] else [])
       @ (if nv_arch (nodeVersion l) \<noteq> nv_arch (nodeVersion r)
          then [(''arch'', Critical)] else [])"
  by (simp add: compareNodeVersions_def assessNodeVersionDrift_def split: option.splits)

theorem npmVersion_always_low_witness:
  "filter (\<lambda>d. d_field d = ''npmVersion'')
     (compareNodeVersions plainVersion (withNpm ''9.0.0'') (withNpm ''10.0.0'')) =
     [\<lparr> d_category = Nodejs, d_severity = Low, d_field = ''npmVersion'',
        d_local = Str ''9.0.0'', d_remote = Str ''10.0.0'',
        d_impact = ''Package installation behavior may differ'',
        d_recommendation = ''Update npm to 10.0.0'' \<rparr>]
   \<and> map (\<lambda>d. (d_field d, d_severity d))
       (compareNodeVersions plainVersion (withVersions ''v18.0.0'' ''9.0.0'')
          (withVersions ''v20.1.0'' ''10.0.0''))
     = [(''nodeVersion'', High), (''npmVersion'', Low)]
   \<and> map (\<lambda>d. (d_field d, d_severity d))
       (compareNodeVersions plainVersion (withVersions ''v18.0.0'' ''9.0.0'')
          (withVersions ''v18.1.0'' ''9.0.1''))
     = [(''nodeVersion'', Medium), (''npmVersion'', Low)]"
  using npmVersion_always_low [of "withNpm ''9.0.0''" "withNpm ''10.0.0''" plainVersion]
    npmVersion_always_low [of "withVersions ''v18.0.0'' ''9.0.0''"
      "withVersions ''v20.1.0'' ''10.0.0''" plainVersion]
    npmVersion_always_low [of "withVersions ''v18.0.0'' ''9.0.0''"
      "withVersions ''v18.1.0'' ''9.0.1''" plainVersion]
  by (simp add: withNpm_def withVersions_def createMockSnapshot_def parser_simps)

text \<open>
  C9 as stated fails: npm 9.0.0 against npm 10.0.0 differ in the major component, for
  which the classifier returns \<open>high\<close>, and the runtime sub-comparison reports \<open>low\<close>.
\<close>

theorem npmVersion_major_counterexample:
  "map d_severity (compareNodeVersions plainVersion (withNpm ''9.0.0'') (withNpm ''10.0.0''))
     = [Low]
   \<and> assessVersionDrift plainVersion (Some ''9.0.0'') (Some ''10.0.0'') = High"
  by (simp add: compareNodeVersions_def withNpm_def createMockSnapshot_def
      assessVersionDrift_def parser_simps)

subsection \<open>Dependency sub-comparison\<close>

text \<open>
  A package that one side lacks (in the model: no own key) and the other has with a
  non-empty version string: the
  drift is \<open>high\<close> with the version as the remote value when the remote side has it, and
  \<open>medium\<close> with the version as the local value when the arguments are swapped.
\<close>

lemma packageDrift_one_sided:
  assumes "map_of lp pkg = None" "map_of rp pkg = Some v" "v \<noteq> []"
  shows "packageDrift parse lp rp pkg =
     [\<lparr> d_category = Dependency, d_severity = High, d_field = ''dependency.'' @ pkg,
        d_local = Undefined, d_remote = Str v,
        d_impact = ''Missing dependency - may cause runtime errors'',
        d_recommendation = ''Install '' @ pkg @ ''@'' @ v \<rparr>]"
    and "packageDrift parse rp lp pkg =
     [\<lparr> d_category = Dependency, d_severity = Medium, d_field = ''dependency.'' @ pkg,
        d_local = Str v, d_remote = Undefined,
        d_impact = ''Extra dependency not in remote'',
        d_recommendation = ''Remove '' @ pkg @ '' or add to remote environment'' \<rparr>]"
  using assms by (simp_all add: packageDrift_def truthy_def ofUndefinable_def)

lemma packageDrift_field:
  "d \<in> set (packageDrift parse a b p) \<Longrightarrow> d_field d = ''dependency.'' @ p"
  by (auto simp: packageDrift_def Let_def split: if_splits)

lemma filter_packageDrift:
  "filter (\<lambda>d. d_field d = ''dependency.'' @ pkg) (packageDrift parse a b p) =
     (if p = pkg then packageDrift parse a b pkg else [])"
proof (cases "p = pkg")
  case True
  then show ?thesis by (auto simp: filter_id_conv dest: packageDrift_field)
next
  case False
  then show ?thesis by (auto simp: filter_empty_conv dest: packageDrift_field)
qed

lemma filter_concat_packageDrift:
  "distinct names \<Longrightarrow>
   filter (\<lambda>d. d_field d = ''dependency.'' @ pkg)
     (concat (map (packageDrift parse a b) names)) =
   (if pkg \<in> set names then packageDrift parse a b pkg else [])"
proof (induction names)
  case Nil
  then show ?case by simp
next
  case (Cons p names)
  then show ?case by (simp only: list.map concat.simps filter_append filter_packageDrift) auto
qed

lemma compareDependencies_per_package:
  "filter (\<lambda>d. d_field d = ''dependency.'' @ pkg) (compareDependencies parse l r) =
   (if map_of (allPackages l) pkg \<noteq> None \<or> map_of (allPackages r) pkg \<noteq> None
    then packageDrift parse (allPackages l) (allPackages r) pkg else [])"
  by (simp only: compareDependencies_def Let_def filter_append filter_concat_packageDrift
      distinct_newSet set_newSet set_append Un_iff keys_map_of)
     simp

text \<open>
  One-sided packages with a non-empty version string and a name that is not the name of a
  member of \<open>Object.prototype\<close> (for such a name the code's lookup on the side that
  lacks the package finds the inherited member, which the model leaves out): in the drifts on
  \<open>dependency.<pkg>\<close> of the two argument orders, the severity follows the side that
  lacks the package (\<open>high\<close> when the local argument lacks it, \<open>medium\<close> when the remote
  argument does), and the version moves between the local and the remote field.
\<close>

lemma compareDependencies_one_sided:
  assumes "map_of (allPackages l) pkg = None" "map_of (allPackages r) pkg = Some v" "v \<noteq> []"
  shows "map (\<lambda>d. (d_severity d, d_local d, d_remote d))
           (filter (\<lambda>d. d_field d = ''dependency.'' @ pkg) (compareDependencies parse l r))
         = [(High, Undefined, Str v)]"
    and "map (\<lambda>d. (d_severity d, d_local d, d_remote d))
           (filter (\<lambda>d. d_field d = ''dependency.'' @ pkg) (compareDependencies parse r l))
         = [(Medium, Str v, Undefined)]"
  using assms packageDrift_one_sided [OF assms, of parse]
  by (simp_all only: compareDependencies_per_package) simp_all

text \<open>
  C6 at the failing input. The version string of a \<open>package.json\<close> entry may be empty
  (npm reads it as any version). \<open>compareDependencies\<close> tests presence by truthiness, so
  a package \<open>foo\<close> that only the remote side has, with the empty version, falls through the
  branch commented "Package missing locally" into the version-mismatch branch: its drift
  is \<open>medium\<close>, not \<open>high\<close>, the same severity as in the swapped order. With a non-empty
  version the same package gives \<open>high\<close>.
\<close>

theorem remote_only_empty_version:
  "map (\<lambda>d. (d_field d, d_severity d, d_local d, d_remote d))
     (compareDependencies plainVersion (withProduction []) (withProduction [(''foo'', [])]))
   = [(''dependency.foo'', Medium, Undefined, Str [])]
   \<and> map (\<lambda>d. (d_field d, d_severity d, d_local d, d_remote d))
     (compareDependencies plainVersion (withProduction [(''foo'', [])]) (withProduction []))
   = [(''dependency.foo'', Medium, Str [], Undefined)]
   \<and> map (\<lambda>d. (d_field d, d_severity d, d_local d, d_remote d))
     (compareDependencies plainVersion (withProduction []) (withProduction [(''foo'', ''1.0.0'')]))
   = [(''dependency.foo'', High, Undefined, Str ''1.0.0'')]"
  by (simp add: compareDependencies_def packageDrift_def allPackages_def spread_def
      newSet_def keys_def withProduction_def createMockSnapshot_def truthy_def
      assessVersionDrift_def ofUndefinable_def parser_simps)

subsection \<open>Environment variables\<close>

lemma filter_field_missing:
  "filter (\<lambda>d. d_field d = ''env.'' @ key) (map missingDrift ks) =
   map missingDrift (filter (\<lambda>k. k = key) ks)"
  by (induction ks) (auto simp: missingDrift_def)

lemma filter_field_extra:
  "filter (\<lambda>d. d_field d = ''env.'' @ key) (map extraDrift ks) =
   map extraDrift (filter (\<lambda>k. k = key) ks)"
  by (induction ks) (auto simp: extraDrift_def)

lemma filter_field_different:
  "filter (\<lambda>d. d_field d = ''env.'' @ key) (map (differentDrift l r) ks) =
   map (differentDrift l r) (filter (\<lambda>k. k = key) ks)"
  by (induction ks) (auto simp: differentDrift_def)

lemma missing_part:
  "filter (\<lambda>d. d_field d = ''env.'' @ key) (map missingDrift (filter P (newSet ks))) =
   (if key \<in> set ks \<and> P key then [missingDrift key] else [])"
  by (subst filter_field_missing) (simp add: filter_key_distinct)

lemma extra_part:
  "filter (\<lambda>d. d_field d = ''env.'' @ key) (map extraDrift (filter P (newSet ks))) =
   (if key \<in> set ks \<and> P key then [extraDrift key] else [])"
  by (subst filter_field_extra) (simp add: filter_key_distinct)

lemma different_part:
  "filter (\<lambda>d. d_field d = ''env.'' @ key) (map (differentDrift l r) (filter P (newSet ks))) =
   (if key \<in> set ks \<and> P key then [differentDrift l r key] else [])"
  by (subst filter_field_different) (simp add: filter_key_distinct)

text \<open>
  C5. For every key, the drifts that \<open>compareEnvironmentVars\<close> reports on the field
  \<open>env.<key>\<close> are: none when neither side has the key; one \<open>high\<close> drift when only the
  remote side has it; one \<open>low\<close> drift when only the local side has it; and when both
  sides have it, one \<open>medium\<close> drift carrying the two values if they differ and neither is
  the sentinel \<open>[REDACTED]\<close>, and no drift otherwise.
\<close>

theorem compareEnvironmentVars_per_key:
  "map (\<lambda>d. (d_severity d, d_local d, d_remote d))
     (filter (\<lambda>d. d_field d = ''env.'' @ key) (compareEnvironmentVars l r)) =
   (case (map_of (ev_variables (envVars l)) key, map_of (ev_variables (envVars r)) key) of
      (None, None) \<Rightarrow> []
    | (None, Some remoteVal) \<Rightarrow> [(High, Undefined, Str ''[SET]'')]
    | (Some localVal, None) \<Rightarrow> [(Low, Str ''[SET]'', Undefined)]
    | (Some localVal, Some remoteVal) \<Rightarrow>
        if localVal \<noteq> remoteVal \<and> localVal \<noteq> ''[REDACTED]'' \<and> remoteVal \<noteq> ''[REDACTED]''
        then [(Medium, Str localVal, Str remoteVal)]
        else [])"
proof -
  have "filter (\<lambda>d. d_field d = ''env.'' @ key) (compareEnvironmentVars l r) =
      (if key \<in> set (keys (ev_variables (envVars r)))
          \<and> key \<notin> set (keys (ev_variables (envVars l)))
       then [missingDrift key] else [])
      @ (if key \<in> set (keys (ev_variables (envVars l)))
            \<and> key \<notin> set (keys (ev_variables (envVars r)))
         then [extraDrift key] else [])
      @ (if key \<in> set (keys (ev_variables (envVars l)))
            \<and> key \<in> set (keys (ev_variables (envVars r)))
            \<and> differs (envVars l) (envVars r) key
         then [differentDrift l r key] else [])"
    by (simp only: compareEnvironmentVars_def compareEnvVars_def Let_def
        EnvVarComparison.select_convs filter_append missing_part extra_part different_part
        set_newSet)
  then show ?thesis
    by (auto simp: keys_map_of differs_def missingDrift_def extraDrift_def
        differentDrift_def ofUndefinable_def split: option.splits)
qed

theorem compareEnvironmentVars_per_key_witness:
  "map (\<lambda>d. (d_field d, d_severity d, d_local d, d_remote d))
     (compareEnvironmentVars
        (withVariables [(''ONLY_LOCAL'', ''1''), (''PORT'', ''3000''), (''API_KEY'', ''[REDACTED]''),
                        (''HOME'', ''/root'')])
        (withVariables [(''PORT'', ''8080''), (''ONLY_REMOTE'', ''2''), (''API_KEY'', ''s3cret''),
                        (''HOME'', ''/root'')]))
   = [(''env.ONLY_REMOTE'', High, Undefined, Str ''[SET]''),
      (''env.ONLY_LOCAL'', Low, Str ''[SET]'', Undefined),
      (''env.PORT'', Medium, Str ''3000'', Str ''8080'')]
   \<and> map (\<lambda>d. (d_severity d, d_local d, d_remote d))
       (filter (\<lambda>d. d_field d = ''env.'' @ ''API_KEY'')
         (compareEnvironmentVars
            (withVariables [(''ONLY_LOCAL'', ''1''), (''PORT'', ''3000''),
                            (''API_KEY'', ''[REDACTED]''), (''HOME'', ''/root'')])
            (withVariables [(''PORT'', ''8080''), (''ONLY_REMOTE'', ''2''),
                            (''API_KEY'', ''s3cret''), (''HOME'', ''/root'')]))) = []"
proof -
  have all: "map (\<lambda>d. (d_field d, d_severity d, d_local d, d_remote d))
     (compareEnvironmentVars
        (withVariables [(''ONLY_LOCAL'', ''1''), (''PORT'', ''3000''), (''API_KEY'', ''[REDACTED]''),
                        (''HOME'', ''/root'')])
        (withVariables [(''PORT'', ''8080''), (''ONLY_REMOTE'', ''2''), (''API_KEY'', ''s3cret''),
                        (''HOME'', ''/root'')]))
   = [(''env.ONLY_REMOTE'', High, Undefined, Str ''[SET]''),
      (''env.ONLY_LOCAL'', Low, Str ''[SET]'', Undefined),
      (''env.PORT'', Medium, Str ''3000'', Str ''8080'')]"
    by (simp add: compareEnvironmentVars_def compareEnvVars_def withVariables_def
        createMockSnapshot_def newSet_def keys_def differs_def missingDrift_def extraDrift_def
        differentDrift_def ofUndefinable_def)
  have key: "map (\<lambda>d. (d_severity d, d_local d, d_remote d))
       (filter (\<lambda>d. d_field d = ''env.'' @ ''API_KEY'')
         (compareEnvironmentVars
            (withVariables [(''ONLY_LOCAL'', ''1''), (''PORT'', ''3000''),
                            (''API_KEY'', ''[REDACTED]''), (''HOME'', ''/root'')])
            (withVariables [(''PORT'', ''8080''), (''ONLY_REMOTE'', ''2''),
                            (''API_KEY'', ''s3cret''), (''HOME'', ''/root'')]))) = []"
    by (subst compareEnvironmentVars_per_key) (simp add: withVariables_def)
  from all key show ?thesis by (rule conjI)
qed

subsection \<open>Container sub-comparison\<close>

text \<open>The drifts of \<open>compareDocker\<close> do not depend on the compose descriptors of either
  side.\<close>

lemma compareDocker_ignores_compose:
  "compareDocker (l \<lparr> docker := (docker l) \<lparr> dk_composeConfigs := cs \<rparr> \<rparr>)
                 (r \<lparr> docker := (docker r) \<lparr> dk_composeConfigs := cs' \<rparr> \<rparr>)
   = compareDocker l r"
  by (simp add: compareDocker_def compareDockerConfigs_def Let_def)

text \<open>
  C8 at the failing input: the local side has one compose file and the remote side none.
  \<open>compareDockerConfigs\<close> computes the count-mismatch message, and \<open>compareDocker\<close> never
  turns \<open>configDifferences\<close> into a drift: the container sub-comparison and the whole
  report are empty.
\<close>

theorem compose_count_mismatch_dropped:
  "dc_configDifferences (compareDockerConfigs (docker (withCompose [composeFile]))
      (docker (withCompose []))) = [''Compose file count mismatch: 1 vs 0'']
   \<and> compareDocker (withCompose [composeFile]) (withCompose []) = []
   \<and> drifts (compareSnapshots plainVersion (withCompose [composeFile]) (withCompose [])) = []"
  by (simp add: compareSnapshots_def compareDocker_def compareDockerConfigs_def
      withCompose_def createMockSnapshot_def newSet_def compareNodeVersions_def
      compareDependencies_def allPackages_def spread_def keys_def
      compareEnvironmentVars_def compareEnvVars_def compareNativeModules_def)

section \<open>Properties of the orchestrator\<close>

subsection \<open>The orchestrator as a sequence of loops\<close>

lemma group_foldl:
  "foldl (\<lambda>grouped drift.
              grouped (d_category drift \<mapsto>
                (case grouped (d_category drift) of None \<Rightarrow> [] | Some g \<Rightarrow> g) @ [drift]))
         g ds c
   = (if ofCategory c ds = [] then g c
      else Some ((case g c of None \<Rightarrow> [] | Some x \<Rightarrow> x) @ ofCategory c ds))"
  by (induction ds arbitrary: g) (auto simp: ofCategory_def)

lemma groupDriftsByCategory_eq:
  "groupDriftsByCategory ds c = (if ofCategory c ds = [] then None else Some (ofCategory c ds))"
  by (simp add: groupDriftsByCategory_def group_foldl)

lemma whenGrouped_forEach:
  "whenGrouped (groupDriftsByCategory ds c) (forEachDrift body) log
   = forEachDrift body (ofCategory c ds) log"
  by (simp add: whenGrouped_def groupDriftsByCategory_eq)

lemma whenGrouped_node:
  "whenGrouped (groupDriftsByCategory ds c) (\<lambda>ds log. (syncNodeVersion ds, log)) log
   = (syncNodeVersion (ofCategory c ds), log)"
  by (simp add: whenGrouped_def groupDriftsByCategory_eq syncNodeVersion_def)

lemma sync_runAll:
  "sync sh rep options =
     (resultOf (fst (runAll sh (dryRunOf options) (filterDrifts options (drifts rep)))),
      snd (runAll sh (dryRunOf options) (filterDrifts options (drifts rep))))"
  by (simp add: sync_def runAll_def resultOf_def dryRunOf_def Let_def
      syncDependencies_def syncEnvVars_def syncDocker_def syncNativeModules_def
      whenGrouped_forEach whenGrouped_node split: prod.splits)

lemma forEach_append:
  "forEachDrift body (xs @ ys) log =
     (case forEachDrift body xs log of
        (a, log') \<Rightarrow> (case forEachDrift body ys log' of (b, log'') \<Rightarrow> (a @ b, log'')))"
  by (induction xs arbitrary: log) (simp_all split: prod.splits)

lemmas example_drift_simps =
  installExpress_def missingDrift_def missingImageDrift_def extraImageDrift_def

lemmas sync_simps =
  sync_def whenGrouped_def groupDriftsByCategory_def filterDrifts_def
  syncDependencies_def syncDependency_def syncEnvVars_def syncEnvVar_def
  syncDocker_def syncDockerDrift_def syncNativeModules_def syncNativeModule_def
  syncNodeVersion_def attempt_def execAsync_def succeeded_def failed_def
  startsWith_def defaults_def

lemma exampleReport_drifts:
  "drifts exampleReport =
     [installExpress, missingDrift ''PORT'', missingImageDrift ''nginx:latest'',
      extraImageDrift ''redis:7'']"
  by (simp add: exampleReport_def exampleRemote_def exampleLocal_def createMockSnapshot_def
      compareSnapshots_def Let_def
      compareNodeVersions_def compareDependencies_def allPackages_def spread_def keys_def
      newSet_def packageDrift_def truthy_def ofUndefinable_def ofNullable_def
      compareEnvironmentVars_def compareEnvVars_def
      compareDocker_def compareDockerConfigs_def
      compareNativeModules_def installExpress_def)

subsection \<open>Failures are recorded and do not stop the run\<close>

lemma failures_simps [simp]:
  "failures [] = []"
  "failures (log @ log') = failures log @ failures log'"
  "failures [(cmd, r)] = (if r = None then [] else [r])"
  by (simp_all add: failures_def)

lemma errors_simps [simp]:
  "errors [] = []"
  "errors (as @ bs) = errors as @ errors bs"
  "errors [succeeded d t] = []"
  "errors [failed d m] = [Some m]"
  by (simp_all add: errors_def succeeded_def failed_def)







lemma errors_syncNodeVersion [simp]: "errors (syncNodeVersion ds) = []"
  by (induction ds) (simp_all add: syncNodeVersion_def errors_def succeeded_def)














subsection \<open>Dry run\<close>

lemma length_inSyncOrder: "length (inSyncOrder ds) = length ds"
proof (induction ds)
  case Nil
  then show ?case by (simp add: inSyncOrder_def ofCategory_def)
next
  case (Cons d ds)
  then show ?case by (cases "d_category d") (simp_all add: inSyncOrder_def ofCategory_def)
qed

lemma forEach_pure:
  assumes "\<And>d log. d \<in> set ds \<Longrightarrow> \<exists>a. body d log = ([a], log) \<and> sa_drift a = d \<and> Q a"
  shows "snd (forEachDrift body ds log) = log
         \<and> map sa_drift (fst (forEachDrift body ds log)) = ds
         \<and> list_all Q (fst (forEachDrift body ds log))"
  using assms
proof (induction ds arbitrary: log)
  case Nil
  then show ?case by simp
next
  case (Cons d ds)
  from Cons.prems [of d log] obtain a where a: "body d log = ([a], log)" "sa_drift a = d" "Q a"
    by auto
  have "snd (forEachDrift body ds log) = log
         \<and> map sa_drift (fst (forEachDrift body ds log)) = ds
         \<and> list_all Q (fst (forEachDrift body ds log))"
    by (rule Cons.IH) (simp add: Cons.prems)
  with a show ?case by (cases "forEachDrift body ds log") simp
qed

lemma dry_dependency:
  "d_category d = Dependency \<Longrightarrow>
   \<exists>a. syncDependency sh True d log = ([a], log) \<and> sa_drift a = d \<and> dryOutcome a"
  by (simp add: syncDependency_def Let_def succeeded_def dryOutcome_def simulated_def
      automated_def startsWith_def)

lemma dry_envvar:
  "d_category d = Envvar \<Longrightarrow>
   \<exists>a. syncEnvVar d log = ([a], log) \<and> sa_drift a = d \<and> dryOutcome a"
  by (simp add: syncEnvVar_def Let_def succeeded_def dryOutcome_def simulated_def
      automated_def startsWith_def)

lemma dry_docker:
  "d_category d = Docker \<Longrightarrow>
   \<exists>a. syncDockerDrift sh True d log = ([a], log) \<and> sa_drift a = d \<and> dryOutcome a"
  by (simp add: syncDockerDrift_def Let_def succeeded_def dryOutcome_def simulated_def
      automated_def startsWith_def)

lemma dry_binary:
  "d_category d = Binary \<Longrightarrow>
   \<exists>a. syncNativeModule sh True d log = ([a], log) \<and> sa_drift a = d \<and> dryOutcome a"
  by (simp add: syncNativeModule_def Let_def succeeded_def dryOutcome_def simulated_def
      automated_def startsWith_def)

lemma dry_node:
  "list_all (\<lambda>d. d_category d = Nodejs) ds \<Longrightarrow>
   map sa_drift (syncNodeVersion ds) = ds \<and> list_all dryOutcome (syncNodeVersion ds)"
  by (induction ds)
     (simp_all add: syncNodeVersion_def succeeded_def dryOutcome_def simulated_def
        automated_def startsWith_def)

lemma dry_handlers:
  "snd (syncDependencies sh True (ofCategory Dependency ds) log) = log
     \<and> map sa_drift (fst (syncDependencies sh True (ofCategory Dependency ds) log))
         = ofCategory Dependency ds
     \<and> list_all dryOutcome (fst (syncDependencies sh True (ofCategory Dependency ds) log))"
  "snd (syncEnvVars sh True (ofCategory Envvar ds) log) = log
     \<and> map sa_drift (fst (syncEnvVars sh True (ofCategory Envvar ds) log))
         = ofCategory Envvar ds
     \<and> list_all dryOutcome (fst (syncEnvVars sh True (ofCategory Envvar ds) log))"
  "snd (syncDocker sh True (ofCategory Docker ds) log) = log
     \<and> map sa_drift (fst (syncDocker sh True (ofCategory Docker ds) log))
         = ofCategory Docker ds
     \<and> list_all dryOutcome (fst (syncDocker sh True (ofCategory Docker ds) log))"
  "snd (syncNativeModules sh True (ofCategory Binary ds) log) = log
     \<and> map sa_drift (fst (syncNativeModules sh True (ofCategory Binary ds) log))
         = ofCategory Binary ds
     \<and> list_all dryOutcome (fst (syncNativeModules sh True (ofCategory Binary ds) log))"
  unfolding syncDependencies_def syncEnvVars_def syncDocker_def syncNativeModules_def
  by (rule forEach_pure, simp add: ofCategory_def dry_dependency dry_envvar dry_docker
      dry_binary)+

lemma runAll_dry:
  "snd (runAll sh True ds) = []
   \<and> map sa_drift (fst (runAll sh True ds)) = inSyncOrder ds
   \<and> list_all dryOutcome (fst (runAll sh True ds))"
proof -
  obtain a1 l1 where s1: "syncDependencies sh True (ofCategory Dependency ds) [] = (a1, l1)"
    by (cases "syncDependencies sh True (ofCategory Dependency ds) []")
  obtain a2 l2 where s2: "syncEnvVars sh True (ofCategory Envvar ds) l1 = (a2, l2)"
    by (cases "syncEnvVars sh True (ofCategory Envvar ds) l1")
  obtain a3 l3 where s3: "syncDocker sh True (ofCategory Docker ds) l2 = (a3, l3)"
    by (cases "syncDocker sh True (ofCategory Docker ds) l2")
  obtain a4 l4 where s4: "syncNativeModules sh True (ofCategory Binary ds) l3 = (a4, l4)"
    by (cases "syncNativeModules sh True (ofCategory Binary ds) l3")
  from dry_handlers(1) [of sh ds "[]"] s1
  have 1: "l1 = []" "map sa_drift a1 = ofCategory Dependency ds" "list_all dryOutcome a1"
    by simp_all
  from dry_handlers(2) [of sh ds l1] s2
  have 2: "l2 = l1" "map sa_drift a2 = ofCategory Envvar ds" "list_all dryOutcome a2"
    by simp_all
  from dry_handlers(3) [of sh ds l2] s3
  have 3: "l3 = l2" "map sa_drift a3 = ofCategory Docker ds" "list_all dryOutcome a3"
    by simp_all
  from dry_handlers(4) [of sh ds l3] s4
  have 4: "l4 = l3" "map sa_drift a4 = ofCategory Binary ds" "list_all dryOutcome a4"
    by simp_all
  have 5: "map sa_drift (syncNodeVersion (ofCategory Nodejs ds)) = ofCategory Nodejs ds
      \<and> list_all dryOutcome (syncNodeVersion (ofCategory Nodejs ds))"
    by (rule dry_node) (simp add: ofCategory_def list_all_iff)
  from 1 2 3 4 5 s1 s2 s3 s4 show ?thesis
    by (simp add: runAll_def inSyncOrder_def)
qed

lemma forEach_filter_eq:
  assumes "\<And>d log log'. d \<in> set ds \<Longrightarrow>
      filter P (fst (body d log)) = filter P (fst (body' d log'))"
  shows "filter P (fst (forEachDrift body ds log)) = filter P (fst (forEachDrift body' ds log'))"
  using assms
proof (induction ds arbitrary: log log')
  case Nil
  then show ?case by simp
next
  case (Cons d ds)
  obtain p l where b: "body d log = (p, l)" by (cases "body d log")
  obtain p' l' where b': "body' d log' = (p', l')" by (cases "body' d log'")
  obtain r m where f: "forEachDrift body ds l = (r, m)" by (cases "forEachDrift body ds l")
  obtain r' m' where f': "forEachDrift body' ds l' = (r', m')"
    by (cases "forEachDrift body' ds l'")
  from Cons.prems [of d log log'] b b' have 1: "filter P p = filter P p'" by simp
  have "filter P (fst (forEachDrift body ds l)) = filter P (fst (forEachDrift body' ds l'))"
    by (rule Cons.IH) (simp add: Cons.prems)
  with f f' have 2: "filter P r = filter P r'" by simp
  from 1 2 b b' f f' show ?case by simp
qed

lemma attempt_notAutomated:
  "automated d \<Longrightarrow> filter notAutomated (fst (attempt sh cmd d t log)) = []"
  by (simp add: attempt_def execAsync_def succeeded_def failed_def notAutomated_def
      split: option.splits)

lemma dependency_manual_same:
  "d_category d = Dependency \<Longrightarrow>
   filter notAutomated (fst (syncDependency sh True d log))
     = filter notAutomated (fst (syncDependency sh' False d log'))"
  by (simp add: syncDependency_def Let_def attempt_notAutomated automated_def)
     (simp add: succeeded_def notAutomated_def automated_def)

lemma docker_manual_same:
  "d_category d = Docker \<Longrightarrow>
   filter notAutomated (fst (syncDockerDrift sh True d log))
     = filter notAutomated (fst (syncDockerDrift sh' False d log'))"
  by (simp add: syncDockerDrift_def Let_def attempt_notAutomated automated_def)
     (simp add: succeeded_def notAutomated_def automated_def)

lemma binary_manual_same:
  "d_category d = Binary \<Longrightarrow>
   filter notAutomated (fst (syncNativeModule sh True d log))
     = filter notAutomated (fst (syncNativeModule sh' False d log'))"
  by (simp add: syncNativeModule_def Let_def attempt_notAutomated automated_def)
     (simp add: succeeded_def notAutomated_def automated_def)

lemma envvar_manual_same:
  "filter notAutomated (fst (syncEnvVar d log)) = filter notAutomated (fst (syncEnvVar d log'))"
  by (simp add: syncEnvVar_def Let_def)

lemma runAll_manual_same:
  "filter notAutomated (fst (runAll sh True ds))
     = filter notAutomated (fst (runAll sh' False ds))"
proof -
  obtain a1 l1 where s1: "syncDependencies sh True (ofCategory Dependency ds) [] = (a1, l1)"
    by (cases "syncDependencies sh True (ofCategory Dependency ds) []")
  obtain a2 l2 where s2: "syncEnvVars sh True (ofCategory Envvar ds) l1 = (a2, l2)"
    by (cases "syncEnvVars sh True (ofCategory Envvar ds) l1")
  obtain a3 l3 where s3: "syncDocker sh True (ofCategory Docker ds) l2 = (a3, l3)"
    by (cases "syncDocker sh True (ofCategory Docker ds) l2")
  obtain a4 l4 where s4: "syncNativeModules sh True (ofCategory Binary ds) l3 = (a4, l4)"
    by (cases "syncNativeModules sh True (ofCategory Binary ds) l3")
  obtain b1 m1 where t1: "syncDependencies sh' False (ofCategory Dependency ds) [] = (b1, m1)"
    by (cases "syncDependencies sh' False (ofCategory Dependency ds) []")
  obtain b2 m2 where t2: "syncEnvVars sh' False (ofCategory Envvar ds) m1 = (b2, m2)"
    by (cases "syncEnvVars sh' False (ofCategory Envvar ds) m1")
  obtain b3 m3 where t3: "syncDocker sh' False (ofCategory Docker ds) m2 = (b3, m3)"
    by (cases "syncDocker sh' False (ofCategory Docker ds) m2")
  obtain b4 m4 where t4: "syncNativeModules sh' False (ofCategory Binary ds) m3 = (b4, m4)"
    by (cases "syncNativeModules sh' False (ofCategory Binary ds) m3")
  have "filter notAutomated (fst (syncDependencies sh True (ofCategory Dependency ds) []))
      = filter notAutomated (fst (syncDependencies sh' False (ofCategory Dependency ds) []))"
    unfolding syncDependencies_def
    by (rule forEach_filter_eq) (simp add: ofCategory_def dependency_manual_same)
  with s1 t1 have 1: "filter notAutomated a1 = filter notAutomated b1" by simp
  have "filter notAutomated (fst (syncEnvVars sh True (ofCategory Envvar ds) l1))
      = filter notAutomated (fst (syncEnvVars sh' False (ofCategory Envvar ds) m1))"
    unfolding syncEnvVars_def
    by (rule forEach_filter_eq) (rule envvar_manual_same)
  with s2 t2 have 2: "filter notAutomated a2 = filter notAutomated b2" by simp
  have "filter notAutomated (fst (syncDocker sh True (ofCategory Docker ds) l2))
      = filter notAutomated (fst (syncDocker sh' False (ofCategory Docker ds) m2))"
    unfolding syncDocker_def
    by (rule forEach_filter_eq) (simp add: ofCategory_def docker_manual_same)
  with s3 t3 have 3: "filter notAutomated a3 = filter notAutomated b3" by simp
  have "filter notAutomated (fst (syncNativeModules sh True (ofCategory Binary ds) l3))
      = filter notAutomated (fst (syncNativeModules sh' False (ofCategory Binary ds) m3))"
    unfolding syncNativeModules_def
    by (rule forEach_filter_eq) (simp add: ofCategory_def binary_manual_same)
  with s4 t4 have 4: "filter notAutomated a4 = filter notAutomated b4" by simp
  from 1 2 3 4 s1 s2 s3 s4 t1 t2 t3 t4 show ?thesis
    by (simp add: runAll_def)
qed

lemma forEach_all:
  assumes "\<And>d log. d \<in> set ds \<Longrightarrow> list_all Q (fst (body d log))"
  shows "list_all Q (fst (forEachDrift body ds log))"
  using assms
proof (induction ds arbitrary: log)
  case Nil
  then show ?case by simp
next
  case (Cons d ds)
  obtain p l where b: "body d log = (p, l)" by (cases "body d log")
  obtain r m where f: "forEachDrift body ds l = (r, m)" by (cases "forEachDrift body ds l")
  from Cons.prems [of d log] b have "list_all Q p" by simp
  moreover have "list_all Q (fst (forEachDrift body ds l))"
    by (rule Cons.IH) (simp add: Cons.prems)
  ultimately show ?case using b f by simp
qed

lemma dry_manual:
  "d_category d = Dependency \<Longrightarrow> list_all manualOrAutomated (fst (syncDependency sh True d log))"
  "d_category d = Envvar \<Longrightarrow> list_all manualOrAutomated (fst (syncEnvVar d log))"
  "d_category d = Docker \<Longrightarrow> list_all manualOrAutomated (fst (syncDockerDrift sh True d log))"
  "d_category d = Binary \<Longrightarrow> list_all manualOrAutomated (fst (syncNativeModule sh True d log))"
  by (simp_all add: syncDependency_def syncEnvVar_def syncDockerDrift_def syncNativeModule_def
      Let_def succeeded_def manualOrAutomated_def manualInstruction_def automated_def
      startsWith_def)

lemma node_manual:
  "list_all (\<lambda>d. d_category d = Nodejs) ds \<Longrightarrow> list_all manualOrAutomated (syncNodeVersion ds)"
  by (induction ds)
     (simp_all add: syncNodeVersion_def succeeded_def manualOrAutomated_def
        manualInstruction_def automated_def startsWith_def)

lemma runAll_dry_manual: "list_all manualOrAutomated (fst (runAll sh True ds))"
proof -
  obtain a1 l1 where s1: "syncDependencies sh True (ofCategory Dependency ds) [] = (a1, l1)"
    by (cases "syncDependencies sh True (ofCategory Dependency ds) []")
  obtain a2 l2 where s2: "syncEnvVars sh True (ofCategory Envvar ds) l1 = (a2, l2)"
    by (cases "syncEnvVars sh True (ofCategory Envvar ds) l1")
  obtain a3 l3 where s3: "syncDocker sh True (ofCategory Docker ds) l2 = (a3, l3)"
    by (cases "syncDocker sh True (ofCategory Docker ds) l2")
  obtain a4 l4 where s4: "syncNativeModules sh True (ofCategory Binary ds) l3 = (a4, l4)"
    by (cases "syncNativeModules sh True (ofCategory Binary ds) l3")
  have "list_all manualOrAutomated (fst (syncDependencies sh True (ofCategory Dependency ds) []))"
    unfolding syncDependencies_def
    by (rule forEach_all) (simp add: ofCategory_def dry_manual)
  with s1 have 1: "list_all manualOrAutomated a1" by simp
  have "list_all manualOrAutomated (fst (syncEnvVars sh True (ofCategory Envvar ds) l1))"
    unfolding syncEnvVars_def
    by (rule forEach_all) (simp add: ofCategory_def dry_manual)
  with s2 have 2: "list_all manualOrAutomated a2" by simp
  have "list_all manualOrAutomated (fst (syncDocker sh True (ofCategory Docker ds) l2))"
    unfolding syncDocker_def
    by (rule forEach_all) (simp add: ofCategory_def dry_manual)
  with s3 have 3: "list_all manualOrAutomated a3" by simp
  have "list_all manualOrAutomated (fst (syncNativeModules sh True (ofCategory Binary ds) l3))"
    unfolding syncNativeModules_def
    by (rule forEach_all) (simp add: ofCategory_def dry_manual)
  with s4 have 4: "list_all manualOrAutomated a4" by simp
  have 5: "list_all manualOrAutomated (syncNodeVersion (ofCategory Nodejs ds))"
    by (rule node_manual) (simp add: ofCategory_def list_all_iff)
  from 1 2 3 4 5 s1 s2 s3 s4 show ?thesis by (simp add: runAll_def)
qed

lemma filterDrifts_dryRun:
  "filterDrifts (options \<lparr> opt_dryRun := b \<rparr>) ds = filterDrifts options ds"
  by (simp add: filterDrifts_def)

text \<open>
  C3, as the code has it. With \<open>dryRun = true\<close>, for every report, every other option and
  every behaviour of the external commands, \<open>sync\<close> makes no call at all; it returns
  exactly one action per drift that passes the filters, in the order dependency, envvar,
  docker, binary, nodejs; every action is successful; and an action carries the marker
  \<open>[DRY RUN]\<close> exactly when its drift is one a handler would otherwise run a command for
  (a dependency other than the lockfile, a container image, a native module). Every other
  action (for the lockfile, for an environment variable, for another container field, for
  the runtime) is a manual instruction, and these actions are, one for one and in order,
  the actions that \<open>sync\<close> returns for the same drifts outside a dry run, whatever the
  external commands do there.
\<close>

theorem sync_dry_run:
  assumes "opt_dryRun options = Some True"
  shows "snd (sync sh rep options) = []
     \<and> map sa_drift (sr_actions (fst (sync sh rep options)))
         = inSyncOrder (filterDrifts options (drifts rep))
     \<and> length (sr_actions (fst (sync sh rep options)))
         = length (filterDrifts options (drifts rep))
     \<and> list_all sa_success (sr_actions (fst (sync sh rep options)))
     \<and> list_all (\<lambda>a. simulated a = automated (sa_drift a))
         (sr_actions (fst (sync sh rep options)))
     \<and> list_all (\<lambda>a. automated (sa_drift a) \<or> manualInstruction a)
         (sr_actions (fst (sync sh rep options)))
     \<and> filter (\<lambda>a. \<not> automated (sa_drift a)) (sr_actions (fst (sync sh rep options)))
         = filter (\<lambda>a. \<not> automated (sa_drift a))
             (sr_actions (fst (sync sh' rep (options \<lparr> opt_dryRun := Some False \<rparr>))))"
proof -
  let ?ds = "filterDrifts options (drifts rep)"
  from assms have dry: "dryRunOf options = True" by (simp add: dryRunOf_def)
  have wet: "dryRunOf (options \<lparr> opt_dryRun := Some False \<rparr>) = False"
    by (simp add: dryRunOf_def)
  have run: "snd (runAll sh True ?ds) = []
      \<and> map sa_drift (fst (runAll sh True ?ds)) = inSyncOrder ?ds
      \<and> list_all dryOutcome (fst (runAll sh True ?ds))"
    by (rule runAll_dry)
  then have "length (map sa_drift (fst (runAll sh True ?ds))) = length ?ds"
    by (simp add: length_inSyncOrder)
  then have len: "length (fst (runAll sh True ?ds)) = length ?ds" by simp
  from run have ok: "list_all sa_success (fst (runAll sh True ?ds))"
    and mark: "list_all (\<lambda>a. simulated a = automated (sa_drift a)) (fst (runAll sh True ?ds))"
    by (simp_all add: list_all_iff dryOutcome_def)
  have manual: "list_all (\<lambda>a. automated (sa_drift a) \<or> manualInstruction a)
      (fst (runAll sh True ?ds))"
    using runAll_dry_manual [of sh ?ds] by (simp add: manualOrAutomated_def [abs_def])
  have same: "filter (\<lambda>a. \<not> automated (sa_drift a)) (fst (runAll sh True ?ds))
      = filter (\<lambda>a. \<not> automated (sa_drift a)) (fst (runAll sh' False ?ds))"
    using runAll_manual_same [of sh ?ds sh'] by (simp add: notAutomated_def [abs_def])
  from run len dry wet ok mark manual same show ?thesis
    by (simp add: sync_runAll resultOf_def filterDrifts_dryRun)
qed

theorem sync_dry_run_witness:
  "opt_dryRun dryRunOptions = Some True
   \<and> snd (sync npmDown exampleReport dryRunOptions) = []
   \<and> map sa_drift (sr_actions (fst (sync npmDown exampleReport dryRunOptions)))
       = [installExpress, missingDrift ''PORT'', missingImageDrift ''nginx:latest'',
          extraImageDrift ''redis:7'']
   \<and> list_all sa_success (sr_actions (fst (sync npmDown exampleReport dryRunOptions)))
   \<and> map sa_action (filter (\<lambda>a. \<not> automated (sa_drift a))
         (sr_actions (fst (sync npmDown exampleReport dryRunOptions))))
       = [Some ''[MANUAL] Set environment variable: PORT=[SET]'']"
proof -
  have wet: "map sa_action (filter (\<lambda>a. \<not> automated (sa_drift a))
      (sr_actions (fst (sync alwaysOk exampleReport (dryRunOptions \<lparr> opt_dryRun := Some False \<rparr>)))))
      = [Some ''[MANUAL] Set environment variable: PORT=[SET]'']"
    by (simp add: sync_simps exampleReport_drifts dryRunOptions_def alwaysOk_def
        example_drift_simps automated_def)
  from wet sync_dry_run [where options = dryRunOptions and sh = npmDown
      and rep = exampleReport and sh' = alwaysOk]
  show ?thesis
    by (simp add: dryRunOptions_def defaults_def filterDrifts_def exampleReport_drifts
        inSyncOrder_def ofCategory_def example_drift_simps)
qed

text \<open>
  C3 as stated fails on the marker: in a dry run over the example report, the action for
  the environment variable is the manual instruction and carries no simulation marker.
\<close>

theorem sync_dry_run_marker_counterexample:
  "map sa_action (sr_actions (fst (sync alwaysOk exampleReport dryRunOptions)))
     = [Some ''[DRY RUN] Would install express@5.0.0'',
        Some ''[MANUAL] Set environment variable: PORT=[SET]'',
        Some ''[DRY RUN] Would pull Docker image: nginx:latest'',
        Some ''[DRY RUN] Would pull Docker image: undefined'']
   \<and> map simulated (sr_actions (fst (sync alwaysOk exampleReport dryRunOptions)))
     = [True, False, True, True]"
  by (simp add: sync_simps exampleReport_drifts dryRunOptions_def example_drift_simps
      simulated_def)

subsection \<open>Container images present only locally\<close>

lemma forEach_skip:
  assumes "\<And>log. body d log = ([], log)"
  shows "forEachDrift body (xs @ d # ys) log = forEachDrift body (xs @ ys) log"
  by (simp add: forEach_append assms split: prod.splits)

lemma filterDrifts_append:
  "filterDrifts options (xs @ ys) = filterDrifts options xs @ filterDrifts options ys"
  by (simp add: filterDrifts_def Let_def split: option.splits)

lemma filterDrifts_single:
  "filterDrifts options [d] = [] \<or> filterDrifts options [d] = [d]"
  by (simp add: filterDrifts_def Let_def split: option.splits)

lemma skipped_image:
  assumes "startsWith (d_field d) ''docker.image.''" "\<not> truthyVal (d_remote d)"
  shows "syncDockerDrift sh False d log = ([], log)"
  using assms by (simp add: syncDockerDrift_def Let_def)

lemma runAll_skip:
  assumes "d_category d = Docker" "startsWith (d_field d) ''docker.image.''"
    "\<not> truthyVal (d_remote d)"
  shows "runAll sh False (xs @ d # ys) = runAll sh False (xs @ ys)"
proof -
  have other: "ofCategory c (xs @ d # ys) = ofCategory c (xs @ ys)" if "c \<noteq> Docker" for c
    using that assms(1) by (simp add: ofCategory_def)
  have "syncDocker sh False (ofCategory Docker (xs @ d # ys)) log
      = syncDocker sh False (ofCategory Docker (xs @ ys)) log" for log
    using assms(1) forEach_skip [of "syncDockerDrift sh False" d "ofCategory Docker xs"
        "ofCategory Docker ys" log, OF skipped_image [OF assms(2,3)]]
    by (simp add: syncDocker_def ofCategory_def)
  then show ?thesis
    by (simp add: runAll_def other)
qed

text \<open>
  C10. Outside a dry run, a container drift whose field starts with \<open>docker.image.\<close> and
  whose remote value is absent (or otherwise falsy) gets no action: \<open>syncDocker\<close> pushes
  nothing for it and makes no call, and the whole result of \<open>sync\<close> (actions, success
  flag, the three summary counts, and the calls made) is the result for the report without
  that drift.
\<close>

theorem sync_omits_local_only_image:
  assumes "d_category d = Docker"
    and "startsWith (d_field d) ''docker.image.''"
    and "\<not> truthyVal (d_remote d)"
    and "opt_dryRun options \<noteq> Some True"
  shows "syncDocker sh False [d] log = ([], log)
     \<and> sync sh (rep \<lparr> drifts := xs @ d # ys \<rparr>) options
         = sync sh (rep \<lparr> drifts := xs @ ys \<rparr>) options"
proof -
  from assms(4) have dry: "dryRunOf options = False"
    by (cases "opt_dryRun options") (simp_all add: dryRunOf_def)
  have one: "syncDocker sh False [d] log = ([], log)"
    by (simp add: syncDocker_def skipped_image [OF assms(2,3)])
  have "runAll sh False (filterDrifts options (xs @ d # ys))
      = runAll sh False (filterDrifts options (xs @ ys))"
  proof -
    have split: "filterDrifts options (xs @ d # ys)
        = filterDrifts options xs @ filterDrifts options [d] @ filterDrifts options ys"
      using filterDrifts_append [of options xs "[d] @ ys"]
        filterDrifts_append [of options "[d]" ys] by simp
    from filterDrifts_single [of options d] show ?thesis
    proof
      assume "filterDrifts options [d] = []"
      with split show ?thesis by (simp add: filterDrifts_append)
    next
      assume "filterDrifts options [d] = [d]"
      with split show ?thesis
        by (simp add: filterDrifts_append runAll_skip [OF assms(1,2,3)])
    qed
  qed
  with one dry show ?thesis by (simp add: sync_runAll)
qed

theorem sync_omits_local_only_image_witness:
  "d_category (extraImageDrift ''redis:7'') = Docker
   \<and> startsWith (d_field (extraImageDrift ''redis:7'')) ''docker.image.''
   \<and> d_remote (extraImageDrift ''redis:7'') = Undefined
   \<and> opt_dryRun defaults = None
   \<and> sync alwaysOk (exampleReport \<lparr> drifts :=
          [installExpress, missingDrift ''PORT'', missingImageDrift ''nginx:latest'']
          @ extraImageDrift ''redis:7'' # [] \<rparr>) defaults
     = sync alwaysOk (exampleReport \<lparr> drifts :=
          [installExpress, missingDrift ''PORT'', missingImageDrift ''nginx:latest''] @ [] \<rparr>)
         defaults"
  using sync_omits_local_only_image [where d = "extraImageDrift ''redis:7''"
      and options = defaults and sh = alwaysOk and rep = exampleReport and ys = "[]"
      and xs = "[installExpress, missingDrift ''PORT'', missingImageDrift ''nginx:latest'']"]
  by (simp add: extraImageDrift_def startsWith_def defaults_def)

section \<open>Properties of the serialization\<close>

text \<open>Parsing the document of a value and printing the result again gives the same
  document: \<open>JSON.parse\<close> builds no date and no \<open>undefined\<close>.\<close>

lemma document_ofJson:
  "document toISO (ofJson j) = Some j"
  "documentElements toISO (ofJsonElements js) = js"
  "documentProperties toISO (ofJsonProperties ps) = ps"
  by (induction j and js and ps rule: ofJson_ofJsonElements_ofJsonProperties.induct) simp_all

text \<open>One image and one native module: the deserializer restores the date, in place, or
  adds a \<open>created\<close> property that holds \<open>undefined\<close> and is left out again.\<close>

lemma reviveImage_round:
  assumes "case img_created img of None \<Rightarrow> True | Some d \<Rightarrow> restorable rt d"
  shows "\<exists>j v. document (toISOString rt) (imageObject img) = Some j
           \<and> reviveImage rt (ofJson j) = Inr v
           \<and> document (toISOString rt) v = Some j"
proof (cases "img_created img")
  case None
  then show ?thesis
    by (simp add: imageObject_def reviveImage_def strings_def document_ofJson)
next
  case (Some d)
  with assms obtain t where "d = ValidDate t" "toISOString rt t \<noteq> []"
    "newDate rt (JsStr (toISOString rt t)) = ValidDate t"
    by (cases d) (simp_all add: restorable_def)
  with Some show ?thesis
    by (simp add: imageObject_def reviveImage_def strings_def document_ofJson)
qed

lemma reviveModule_round:
  assumes "restorable rt (nm_modified m)"
  shows "\<exists>j v. document (toISOString rt) (moduleObject m) = Some j
           \<and> reviveModule rt (ofJson j) = Inr v
           \<and> document (toISOString rt) v = Some j"
proof -
  from assms obtain t where "nm_modified m = ValidDate t"
    "newDate rt (JsStr (toISOString rt t)) = ValidDate t"
    by (cases "nm_modified m") (simp_all add: restorable_def)
  then show ?thesis
    by (simp add: moduleObject_def reviveModule_def document_ofJson)
qed

lemma mapM_round:
  assumes "\<And>x. x \<in> set xs \<Longrightarrow>
      \<exists>j v. document toISO x = Some j \<and> f (ofJson j) = Inr v \<and> document toISO v = Some j"
  shows "\<exists>vs. mapM f (ofJsonElements (documentElements toISO xs)) = Inr vs
           \<and> documentElements toISO vs = documentElements toISO xs"
  using assms
proof (induction xs)
  case Nil
  then show ?case by simp
next
  case (Cons x xs)
  from Cons.prems [of x] obtain j v where x: "document toISO x = Some j" "f (ofJson j) = Inr v"
    "document toISO v = Some j" by auto
  from Cons.IH Cons.prems obtain vs where
    vs: "mapM f (ofJsonElements (documentElements toISO xs)) = Inr vs"
      "documentElements toISO vs = documentElements toISO xs"
    by auto
  from x vs show ?case by simp
qed

lemma datesOf_tl:
  "tl (datesOf s) =
     concat (map (\<lambda>img. case img_created img of None \<Rightarrow> [] | Some d \<Rightarrow> [d])
                   (dk_images (docker s)))
     @ map nm_modified (dep_nativeModules (dependencies s))"
  by (simp add: datesOf_def)

lemma images_round:
  assumes "list_all (restorable rt) (tl (datesOf s))"
  shows "\<exists>vs. mapM (reviveImage rt)
            (ofJsonElements (documentElements (toISOString rt) (map imageObject (dk_images (docker s)))))
          = Inr vs
        \<and> documentElements (toISOString rt) vs
          = documentElements (toISOString rt) (map imageObject (dk_images (docker s)))"
proof (rule mapM_round)
  fix x assume "x \<in> set (map imageObject (dk_images (docker s)))"
  then obtain img where img: "img \<in> set (dk_images (docker s))" "x = imageObject img" by auto
  have "restorable rt d" if "img_created img = Some d" for d
  proof -
    from img(1) that have "d \<in> set (tl (datesOf s))" by (force simp: datesOf_tl)
    with assms show ?thesis by (simp add: list_all_iff)
  qed
  then have "case img_created img of None \<Rightarrow> True | Some d \<Rightarrow> restorable rt d"
    by (simp split: option.splits)
  with img(2) reviveImage_round [where img = img and rt = rt]
  show "\<exists>j v. document (toISOString rt) x = Some j
      \<and> reviveImage rt (ofJson j) = Inr v \<and> document (toISOString rt) v = Some j"
    by simp
qed

lemma modules_round:
  assumes "list_all (restorable rt) (tl (datesOf s))"
  shows "\<exists>vs. mapM (reviveModule rt)
            (ofJsonElements (documentElements (toISOString rt)
               (map moduleObject (dep_nativeModules (dependencies s)))))
          = Inr vs
        \<and> documentElements (toISOString rt) vs
          = documentElements (toISOString rt)
              (map moduleObject (dep_nativeModules (dependencies s)))"
proof (rule mapM_round)
  fix x assume "x \<in> set (map moduleObject (dep_nativeModules (dependencies s)))"
  then obtain m where m: "m \<in> set (dep_nativeModules (dependencies s))" "x = moduleObject m"
    by auto
  from assms m(1) have "restorable rt (nm_modified m)"
    by (auto simp: datesOf_tl list_all_iff)
  with m(2) reviveModule_round [where m = m and rt = rt]
  show "\<exists>j v. document (toISOString rt) x = Some j
      \<and> reviveModule rt (ofJson j) = Inr v \<and> document (toISOString rt) v = Some j"
    by simp
qed

text \<open>
  Deserializing the serialized form of a snapshot succeeds, whatever its timestamp, and
  the result prints like the snapshot whose timestamp is what the \<open>Date\<close> constructor makes
  of the serialized timestamp.
\<close>

lemma deserialize_serialized:
  assumes dates: "list_all (restorable rt) (tl (datesOf s))"
    and json: "readsBack rt (snapshotObject s)"
  shows "\<exists>text s'. serializeSnapshot rt (snapshotObject s) = Some text
           \<and> deserializeSnapshot rt text = Inr s'
           \<and> document (toISOString rt) s'
             = document (toISOString rt)
                 (snapshotObject (s \<lparr> timestamp := newDate rt (ofJson (timestampDocument rt s)) \<rparr>))"
proof -
  let ?iso = "toISOString rt"
  let ?jt = "timestampDocument rt s"
  have jt: "document ?iso (JsDate (timestamp s)) = Some ?jt"
    by (simp add: timestampDocument_def split: Date.splits)
  obtain jt' where jt': "document ?iso (JsDate (newDate rt (ofJson ?jt))) = Some jt'"
    by (cases "newDate rt (ofJson ?jt)") simp_all
  obtain jnv where jnv: "document ?iso (nodeVersionObject (nodeVersion s)) = Some jnv"
    by (auto simp: nodeVersionObject_def)
  obtain jev where jev: "document ?iso (envVarsObject (envVars s)) = Some jev"
    by (auto simp: envVarsObject_def)
  obtain jsy where jsy: "document ?iso (systemObject (system s)) = Some jsy"
    by (auto simp: systemObject_def)
  obtain jp where jp: "document ?iso (dictionary (dep_production (dependencies s))) = Some jp"
    by (auto simp: dictionary_def)
  obtain jd where jd: "document ?iso (dictionary (dep_development (dependencies s))) = Some jd"
    by (auto simp: dictionary_def)
  obtain jv where jv: "document ?iso (nullableString (dk_version (docker s))) = Some jv"
    by (cases "dk_version (docker s)") (auto simp: nullableString_def)
  obtain jpl where jpl: "document ?iso (nullableString (dk_platform (docker s))) = Some jpl"
    by (cases "dk_platform (docker s)") (auto simp: nullableString_def)
  obtain jar where jar: "document ?iso (nullableString (dk_arch (docker s))) = Some jar"
    by (cases "dk_arch (docker s)") (auto simp: nullableString_def)
  let ?ji = "documentElements ?iso (map imageObject (dk_images (docker s)))"
  let ?jc = "documentElements ?iso (map containerObject (dk_containers (docker s)))"
  let ?jcc = "documentElements ?iso (map composeObject (dk_composeConfigs (docker s)))"
  let ?jm = "documentElements ?iso (map moduleObject (dep_nativeModules (dependencies s)))"
  let ?rest = "[(''environment'', JStr (environmentName (environment s))),
                (''nodeVersion'', jnv),
                (''dependencies'',
                   JObj [(''production'', jp), (''development'', jd),
                         (''lockfileHash'', JStr (dep_lockfileHash (dependencies s))),
                         (''nativeModules'', JArr ?jm)]),
                (''envVars'', jev),
                (''docker'',
                   JObj [(''version'', jv), (''platform'', jpl), (''arch'', jar),
                         (''images'', JArr ?ji), (''containers'', JArr ?jc),
                         (''composeConfigs'', JArr ?jcc)]),
                (''system'', jsy),
                (''hash'', JStr (hash s))]"
  have doc: "document ?iso (snapshotObject s) = Some (JObj ((''timestamp'', ?jt) # ?rest))"
    using jt by (simp add: snapshotObject_def dependenciesObject_def dockerObject_def
        jnv jev jsy jp jd jv jpl jar)
  have doc': "document ?iso
      (snapshotObject (s \<lparr> timestamp := newDate rt (ofJson ?jt) \<rparr>))
      = Some (JObj ((''timestamp'', jt') # ?rest))"
    using jt' by (simp add: snapshotObject_def dependenciesObject_def dockerObject_def
        jnv jev jsy jp jd jv jpl jar)
  from json doc
  have parse: "parseJSON rt (printJSON rt (JObj ((''timestamp'', ?jt) # ?rest)))
      = Some (JObj ((''timestamp'', ?jt) # ?rest))"
    by (simp add: readsBack_def)
  from images_round [OF dates] obtain vis where
    vis: "mapM (reviveImage rt) (ofJsonElements ?ji) = Inr vis"
      "documentElements ?iso vis = ?ji" by blast
  from modules_round [OF dates] obtain ms where
    ms: "mapM (reviveModule rt) (ofJsonElements ?jm) = Inr ms"
      "documentElements ?iso ms = ?jm" by blast
  let ?s' = "JsObj [(''timestamp'', JsDate (newDate rt (ofJson ?jt))),
                    (''environment'', JsStr (environmentName (environment s))),
                    (''nodeVersion'', ofJson jnv),
                    (''dependencies'',
                       JsObj [(''production'', ofJson jp), (''development'', ofJson jd),
                              (''lockfileHash'', JsStr (dep_lockfileHash (dependencies s))),
                              (''nativeModules'', JsArr ms)]),
                    (''envVars'', ofJson jev),
                    (''docker'',
                       JsObj [(''version'', ofJson jv), (''platform'', ofJson jpl),
                              (''arch'', ofJson jar),
                              (''images'', JsArr vis),
                              (''containers'', JsArr (ofJsonElements ?jc)),
                              (''composeConfigs'', JsArr (ofJsonElements ?jcc))]),
                    (''system'', ofJson jsy),
                    (''hash'', JsStr (hash s))]"
  have des: "deserializeSnapshot rt (printJSON rt (JObj ((''timestamp'', ?jt) # ?rest)))
      = Inr ?s'"
    by (simp add: deserializeSnapshot_def parse reviveList_def vis ms)
  have again: "document ?iso ?s' = Some (JObj ((''timestamp'', jt') # ?rest))"
    using jt' by (simp add: document_ofJson vis ms)
  from doc doc' des again show ?thesis
    by (simp add: serializeSnapshot_def)
qed

text \<open>
  C7. For every snapshot whose dates are all restorable (the timestamp, the creation time
  of every image that has one, the modification time of every native module: valid dates,
  as the assembler produces them) and whose document \<open>JSON.parse\<close> reads back,
  \<open>serializeSnapshot\<close> returns a text, \<open>deserializeSnapshot\<close> accepts it, and serializing
  the result returns the same text, character for character.
\<close>

theorem serialize_round_trip:
  assumes dates: "list_all (restorable rt) (datesOf s)"
    and json: "readsBack rt (snapshotObject s)"
  shows "\<exists>text s'. serializeSnapshot rt (snapshotObject s) = Some text
           \<and> deserializeSnapshot rt text = Inr s'
           \<and> serializeSnapshot rt s' = Some text"
proof -
  from dates obtain t where t: "timestamp s = ValidDate t"
    "newDate rt (JsStr (toISOString rt t)) = ValidDate t"
    by (cases "timestamp s") (simp_all add: datesOf_def restorable_def)
  then have same: "s \<lparr> timestamp := newDate rt (ofJson (timestampDocument rt s)) \<rparr> = s"
    by (simp add: timestampDocument_def)
  from dates have "list_all (restorable rt) (tl (datesOf s))"
    by (simp add: datesOf_def)
  from deserialize_serialized [OF this json] same show ?thesis
    by (auto simp: serializeSnapshot_def)
qed

theorem serialize_round_trip_witness:
  "list_all (restorable exampleRuntime) (datesOf datedSnapshot)
   \<and> readsBack exampleRuntime (snapshotObject datedSnapshot)
   \<and> (\<exists>text s'. serializeSnapshot exampleRuntime (snapshotObject datedSnapshot) = Some text
          \<and> deserializeSnapshot exampleRuntime text = Inr s'
          \<and> serializeSnapshot exampleRuntime s' = Some text)"
proof -
  have dates: "list_all (restorable exampleRuntime) (datesOf datedSnapshot)"
    by (simp add: datesOf_def datedSnapshot_def sampleSnapshot_def createMockSnapshot_def
        bcryptModule_def restorable_def exampleRuntime_def exampleISO_def exampleNewDate_def)
  have json: "readsBack exampleRuntime (snapshotObject datedSnapshot)"
    by (simp add: readsBack_def exampleRuntime_def exampleDocument_def split: option.splits)
  from dates json serialize_round_trip [OF dates json] show ?thesis by simp
qed

text \<open>
  The validity of the dates is needed. An invalid timestamp is serialized as \<open>null\<close>, and
  the \<open>Date\<close> constructor makes the epoch of \<open>null\<close>: the deserialized snapshot prints a
  different document.
\<close>

lemma invalid_timestamp_not_restored:
  assumes "timestamp s = InvalidDate"
    and "newDate rt JsNull = ValidDate 0"
    and "list_all (restorable rt) (tl (datesOf s))"
    and "readsBack rt (snapshotObject s)"
  shows "\<exists>text s'. serializeSnapshot rt (snapshotObject s) = Some text
           \<and> deserializeSnapshot rt text = Inr s'
           \<and> document (toISOString rt) s' \<noteq> document (toISOString rt) (snapshotObject s)"
proof -
  from assms(1,2)
  have "s \<lparr> timestamp := newDate rt (ofJson (timestampDocument rt s)) \<rparr>
      = s \<lparr> timestamp := ValidDate 0 \<rparr>"
    by (simp add: timestampDocument_def)
  moreover have "document (toISOString rt) (snapshotObject (s \<lparr> timestamp := ValidDate 0 \<rparr>))
      \<noteq> document (toISOString rt) (snapshotObject s)"
    using assms(1) by (simp add: snapshotObject_def)
  ultimately show ?thesis
    using deserialize_serialized [OF assms(3,4)] by auto
qed

end
